theory Spec2Isabelle
  imports Complex_Main "HOL-Library.Multiset"
begin

section \<open>Data model of \<^verbatim>\<open>chemcoord/xyz_functions.py\<close>\<close>

text \<open>
  Atom keys are Python integers, coordinates and radii are real numbers (the
  idealisation of NumPy's finite floats). Every exception the source can raise is a
  value of \<open>py_error\<close>; a function that can raise returns \<open>py_error + 'a\<close>.
  \<open>DegenerateGeometry\<close> is no Python exception: it is the condition that a vector of
  length zero was to be normalised, where floating point yields not-a-number. A method
  \<^verbatim>\<open>_name\<close> of the source is the constant \<open>name\<close> here (or \<open>name_static\<close>
  when the class has a public method of that name too).
\<close>

datatype py_error =
  KeyError | IndexError | ValueError | TypeError | AssertionError | UnboundLocalError
  | DegenerateGeometry

section \<open>\<^verbatim>\<open>pick\<close>\<close>

text \<open>
  \<^verbatim>\<open>
  def pick(my_set):
      x = my_set.pop()
      my_set.add(x)
      return x
  \<close>
  \<^verbatim>\<open>set.pop\<close> removes and returns an arbitrary element and raises KeyError on the
  empty set, so it is a relation between the set before and the pair of the outcome and
  the set after.
\<close>

inductive set_pop :: "'a set \<Rightarrow> (py_error + 'a) \<times> 'a set \<Rightarrow> bool" where
  pop_empty: "set_pop {} (Inl KeyError, {})"
| pop_elem: "x \<in> s \<Longrightarrow> set_pop s (Inr x, s - {x})"

inductive pick :: "'a set \<Rightarrow> (py_error + 'a) \<times> 'a set \<Rightarrow> bool" where
  pick_raise: "set_pop my_set (Inl e, s') \<Longrightarrow> pick my_set (Inl e, s')"
| pick_return: "set_pop my_set (Inr x, s') \<Longrightarrow> pick my_set (Inr x, insert x s')"

section \<open>Frames, dictionaries and arrays\<close>

text \<open>
  A row of the \<^verbatim>\<open>xyz_frame\<close> (a pandas DataFrame): its index label, the element
  symbol and the three coordinates. The frame is the list of its rows in frame order.
\<close>

record xyz_row =
  row_index :: int
  row_atom :: string
  row_x :: real
  row_y :: real
  row_z :: real

type_synonym vec3 = "real \<times> real \<times> real"

text \<open>The bond dictionary: atom key to the set of keys it is bonded to.\<close>

type_synonym graph = "int \<rightharpoonup> int set"

text \<open>
  An instance of the class \<^verbatim>\<open>Cartesian\<close>: the frame and the attribute
  \<^verbatim>\<open>__bond_dic\<close>, which is absent (\<open>None\<close>) until \<^verbatim>\<open>get_bonds\<close> sets it.
\<close>

record Cartesian =
  xyz_frame :: "xyz_row list"
  bond_dic_attr :: "graph option"

text \<open>
  The module \<^verbatim>\<open>constants\<close> is not part of the sources at hand; its table
  \<^verbatim>\<open>atom_properties\<close> (element symbol to valency and bond size) is a parameter of
  every function that reads it.
\<close>

record atom_props =
  valency :: int
  bond_size :: real

definition frame_index :: "xyz_row list \<Rightarrow> int list" where
  "frame_index frame = map row_index frame"

definition row_location :: "xyz_row \<Rightarrow> vec3" where
  "row_location r = (row_x r, row_y r, row_z r)"

text \<open>\<^verbatim>\<open>dict(zip(keys, values))\<close>: a key that occurs twice keeps its last value.\<close>

definition py_dict :: "('k \<times> 'v) list \<Rightarrow> 'k \<rightharpoonup> 'v" where
  "py_dict kvs = map_of (rev kvs)"

text \<open>\<^verbatim>\<open>d[key]\<close>, raising KeyError when the key is missing.\<close>

definition getitem :: "('k \<rightharpoonup> 'v) \<Rightarrow> 'k \<Rightarrow> py_error + 'v" where
  "getitem d k = (case d k of None \<Rightarrow> Inl KeyError | Some v \<Rightarrow> Inr v)"

text \<open>A list comprehension whose body can raise: the first exception ends it.\<close>

fun comprehension :: "('a \<Rightarrow> py_error + 'b) \<Rightarrow> 'a list \<Rightarrow> py_error + 'b list" where
  "comprehension f [] = Inr []"
| "comprehension f (x # xs) =
     (case f x of Inl e \<Rightarrow> Inl e
      | Inr y \<Rightarrow> (case comprehension f xs of Inl e \<Rightarrow> Inl e | Inr ys \<Rightarrow> Inr (y # ys)))"

text \<open>\<^verbatim>\<open>frame.loc[key, :]\<close> for one label, and \<^verbatim>\<open>frame.loc[include, :]\<close> for a list.\<close>

definition loc_row :: "xyz_row list \<Rightarrow> int \<Rightarrow> py_error + xyz_row" where
  "loc_row frame k =
     (case find (\<lambda>r. row_index r = k) frame of None \<Rightarrow> Inl KeyError | Some r \<Rightarrow> Inr r)"

definition loc_rows :: "xyz_row list \<Rightarrow> int list \<Rightarrow> py_error + xyz_row list" where
  "loc_rows frame include = comprehension (loc_row frame) include"

text \<open>\<^verbatim>\<open>np.linalg.norm\<close> of a 3-vector and the difference of two 3-vectors.\<close>

fun linalg_norm :: "vec3 \<Rightarrow> real" where
  "linalg_norm (a, b, c) = sqrt (a * a + b * b + c * c)"

fun vsub :: "vec3 \<Rightarrow> vec3 \<Rightarrow> vec3" where
  "vsub (a, b, c) (a', b', c') = (a - a', b - b', c - c')"

text \<open>
  An \<open>(n, n)\<close> array is a function of the two positions, read below \<open>n\<close> only;
  \<open>n\<close> is the length of the list of labels the array was built from.
\<close>

type_synonym array2 = "nat \<Rightarrow> nat \<Rightarrow> real"

record convert_dicts =
  to_frame :: "int list"
  to_array :: "int \<rightharpoonup> nat"

section \<open>Overlap of bond radii\<close>

definition give_distance_array :: "xyz_row list \<Rightarrow> int list \<Rightarrow> py_error + array2 \<times> convert_dicts" where
  "give_distance_array xyz include =
     (case loc_rows xyz include of Inl e \<Rightarrow> Inl e
      | Inr frame \<Rightarrow>
          let convert_to = \<lparr> to_frame = frame_index frame,
                             to_array = py_dict (zip (frame_index frame) [0..<length frame]) \<rparr>;
              location_array = map row_location frame
          in Inr (\<lambda>i j. linalg_norm (vsub (location_array ! i) (location_array ! j)),
                  convert_to))"

definition summed_bond_size_array :: "(int \<rightharpoonup> real) \<Rightarrow> int list \<Rightarrow> py_error + array2" where
  "summed_bond_size_array bond_size_dic include =
     (case comprehension (getitem bond_size_dic) include of Inl e \<Rightarrow> Inl e
      | Inr bond_size_vector \<Rightarrow> Inr (\<lambda>i j. bond_size_vector ! i + bond_size_vector ! j))"

definition overlap :: "xyz_row list \<Rightarrow> (int \<rightharpoonup> real) \<Rightarrow> int list \<Rightarrow> py_error + array2 \<times> convert_dicts" where
  "overlap xyz bond_size_dic include =
     (case summed_bond_size_array bond_size_dic include of Inl e \<Rightarrow> Inl e
      | Inr bond_size_array \<Rightarrow>
          (case give_distance_array xyz include of Inl e \<Rightarrow> Inl e
           | Inr (distance_array, convert_to) \<Rightarrow>
               Inr (\<lambda>i j. bond_size_array i j - distance_array i j, convert_to)))"

section \<open>\<^verbatim>\<open>get_bonds\<close>\<close>

definition preparation_of_variables ::
  "(string \<rightharpoonup> atom_props) \<Rightarrow> xyz_row list \<Rightarrow> (int \<rightharpoonup> atom_props) option \<Rightarrow>
   py_error + graph \<times> (int \<rightharpoonup> int) \<times> (int \<rightharpoonup> real)" where
  "preparation_of_variables atom_properties xyz modified_properties =
     (let bond_dic = py_dict (zip (frame_index xyz) (replicate (length xyz) {}))
      in case comprehension (\<lambda>r. getitem atom_properties (row_atom r)) xyz of Inl e \<Rightarrow> Inl e
         | Inr props \<Rightarrow>
             let valency_dic = py_dict (zip (frame_index xyz) (map valency props));
                 bond_size_dic = py_dict (zip (frame_index xyz) (map bond_size props))
             in (case modified_properties of
                   None \<Rightarrow> Inr (bond_dic, valency_dic, bond_size_dic)
                 | Some mp \<Rightarrow>
                     Inr (bond_dic,
                          valency_dic ++ (\<lambda>key. map_option valency (mp key)),
                          bond_size_dic ++ (\<lambda>key. map_option bond_size (mp key)))))"

text \<open>\<^verbatim>\<open>np.fill_diagonal(a, v)\<close>.\<close>

definition fill_diagonal :: "array2 \<Rightarrow> real \<Rightarrow> array2" where
  "fill_diagonal a v = (\<lambda>i j. if i = j then v else a i j)"

text \<open>
  \<^verbatim>\<open>temp_frame.sort_values(ascending=False)\<close> on the positions bonded to, keyed by
  their overlap. pandas leaves the order of equal keys open; the model keeps them in
  their previous order.
\<close>

definition sort_values_descending :: "(nat \<Rightarrow> real) \<Rightarrow> nat list \<Rightarrow> nat list" where
  "sort_values_descending val js = sort_key (\<lambda>j. - val j) js"

text \<open>\<^verbatim>\<open>xs[v:]\<close> with Python's reading of a negative start.\<close>

definition slice_from :: "int \<Rightarrow> 'a list \<Rightarrow> 'a list" where
  "slice_from v xs = (if 0 \<le> v then drop (nat v) xs else drop (nat (int (length xs) + v)) xs)"

text \<open>
  One pass of the loop over the oversaturated positions: the bonds of \<open>index\<close> beyond
  its valency, lowest overlap first, are overwritten with \<open>-1\<close> in row and column.
\<close>

definition cut_bonds :: "nat \<Rightarrow> int list \<Rightarrow> nat \<Rightarrow> array2 \<Rightarrow> array2" where
  "cut_bonds n theoretical_valency index overlap_array =
     (let atoms_bonded_to = filter (\<lambda>j. overlap_array index j > 0) [0..<n];
          temp_frame = sort_values_descending (overlap_array index) atoms_bonded_to;
          cut_bonds_to = slice_from (theoretical_valency ! index) temp_frame
      in (\<lambda>i j. if (i = index \<and> j \<in> set cut_bonds_to) \<or> (j = index \<and> i \<in> set cut_bonds_to)
                 then -1 else overlap_array i j))"

text \<open>
  \<^verbatim>\<open>update_dic\<close>: for every pair of positions with positive overlap, in row-major
  order, the key of the column is added to the set of the key of the row.
\<close>

fun update_pairs :: "int list \<Rightarrow> (nat \<times> nat) list \<Rightarrow> graph \<Rightarrow> py_error + graph" where
  "update_pairs conv [] bond_dic = Inr bond_dic"
| "update_pairs conv ((a, b) # rest) bond_dic =
     (case bond_dic (conv ! a) of None \<Rightarrow> Inl KeyError
      | Some s \<Rightarrow> update_pairs conv rest (bond_dic(conv ! a \<mapsto> s \<union> {conv ! b})))"

definition nonzero2 :: "nat \<Rightarrow> (nat \<Rightarrow> nat \<Rightarrow> bool) \<Rightarrow> (nat \<times> nat) list" where
  "nonzero2 n bin = filter (\<lambda>(i, j). bin i j) (List.product [0..<n] [0..<n])"

definition update_dic :: "nat \<Rightarrow> convert_dicts \<Rightarrow> array2 \<Rightarrow> graph \<Rightarrow> py_error + graph" where
  "update_dic n convert_to overlap_array bond_dic =
     update_pairs (to_frame convert_to) (nonzero2 n (\<lambda>i j. overlap_array i j > 0)) bond_dic"

text \<open>
  The row sums of the boolean array, the positions whose row sum exceeds the valency,
  and the block that cuts their excess bonds when \<^verbatim>\<open>use_valency\<close> holds (the
  warnings it prints are no part of the result).
\<close>

definition actual_valency :: "nat \<Rightarrow> array2 \<Rightarrow> nat \<Rightarrow> nat" where
  "actual_valency n overlap_array i = length (filter (\<lambda>j. overlap_array i j > 0) [0..<n])"

definition indices_of_oversaturated_atoms :: "nat \<Rightarrow> int list \<Rightarrow> array2 \<Rightarrow> nat list" where
  "indices_of_oversaturated_atoms n theoretical_valency overlap_array =
     (let excess_valency = (\<lambda>i. int (actual_valency n overlap_array i) - theoretical_valency ! i)
      in filter (\<lambda>i. excess_valency i > 0) [0..<n])"

definition cut_oversaturated :: "nat \<Rightarrow> int list \<Rightarrow> bool \<Rightarrow> array2 \<Rightarrow> array2" where
  "cut_oversaturated n theoretical_valency use_valency overlap_array =
     (if use_valency \<and> length (indices_of_oversaturated_atoms n theoretical_valency overlap_array) > 0
      then fold (cut_bonds n theoretical_valency)
             (indices_of_oversaturated_atoms n theoretical_valency overlap_array) overlap_array
      else overlap_array)"

definition get_bonds_local ::
  "xyz_row list \<Rightarrow> graph \<Rightarrow> (int \<rightharpoonup> int) \<Rightarrow> (int \<rightharpoonup> real) \<Rightarrow> bool \<Rightarrow> int list \<Rightarrow> py_error + graph" where
  "get_bonds_local xyz bond_dic valency_dic bond_size_dic use_valency index_of_cube =
     (case overlap xyz bond_size_dic index_of_cube of Inl e \<Rightarrow> Inl e
      | Inr (overlap_array0, convert_to) \<Rightarrow>
          (case comprehension (getitem valency_dic) index_of_cube of Inl e \<Rightarrow> Inl e
           | Inr theoretical_valency \<Rightarrow>
               update_dic (length index_of_cube) convert_to
                 (cut_oversaturated (length index_of_cube) theoretical_valency use_valency
                    (fill_diagonal overlap_array0 (-1)))
                 bond_dic))"

section \<open>\<^verbatim>\<open>_divide_et_impera\<close>\<close>

datatype axis = axis_x | axis_y | axis_z

fun coord :: "axis \<Rightarrow> xyz_row \<Rightarrow> real" where
  "coord axis_x r = row_x r"
| "coord axis_y r = row_y r"
| "coord axis_z r = row_z r"

text \<open>\<^verbatim>\<open>self.xyz_frame[axis].sort_values()\<close>: the rows in ascending order of one coordinate.\<close>

definition sorted_series :: "xyz_row list \<Rightarrow> axis \<Rightarrow> xyz_row list" where
  "sorted_series xyz ax = sort_key (coord ax) xyz"

definition convert :: "xyz_row list \<Rightarrow> axis \<Rightarrow> int list" where
  "convert xyz ax = map row_index (sorted_series xyz ax)"

definition sorted_arrays :: "xyz_row list \<Rightarrow> axis \<Rightarrow> real list" where
  "sorted_arrays xyz ax = map (coord ax) (sorted_series xyz ax)"

definition minimum :: "xyz_row list \<Rightarrow> axis \<Rightarrow> real" where
  "minimum xyz ax = hd (sorted_arrays xyz ax) - 0.01"

definition maximum :: "xyz_row list \<Rightarrow> axis \<Rightarrow> real" where
  "maximum xyz ax = last (sorted_arrays xyz ax) + 0.01"

definition extent :: "xyz_row list \<Rightarrow> axis \<Rightarrow> real" where
  "extent xyz ax = maximum xyz ax - minimum xyz ax"

definition steps :: "xyz_row list \<Rightarrow> real \<Rightarrow> axis \<Rightarrow> int" where
  "steps xyz maximum_edge_length ax = \<lceil>extent xyz ax / maximum_edge_length\<rceil>"

definition cuboid_diagonal :: "xyz_row list \<Rightarrow> real \<Rightarrow> axis \<Rightarrow> real" where
  "cuboid_diagonal xyz maximum_edge_length ax =
     extent xyz ax / real_of_int (steps xyz maximum_edge_length ax)"

definition edge_small :: "xyz_row list \<Rightarrow> real \<Rightarrow> axis \<Rightarrow> real" where
  "edge_small xyz maximum_edge_length ax = cuboid_diagonal xyz maximum_edge_length ax"

definition edge_big :: "xyz_row list \<Rightarrow> real \<Rightarrow> real \<Rightarrow> axis \<Rightarrow> real" where
  "edge_big xyz maximum_edge_length difference_edge ax =
     edge_small xyz maximum_edge_length ax + difference_edge"

text \<open>
  \<^verbatim>\<open>origin_array[x_counter, y_counter, z_counter]\<close>: the centre of a cuboid,
  \<^verbatim>\<open>minimum + cuboid_diagonal / 2 + diag([x, y, z]) . cuboid_diagonal\<close>.
\<close>

fun counter_of :: "nat \<times> nat \<times> nat \<Rightarrow> axis \<Rightarrow> nat" where
  "counter_of (x_counter, y_counter, z_counter) axis_x = x_counter"
| "counter_of (x_counter, y_counter, z_counter) axis_y = y_counter"
| "counter_of (x_counter, y_counter, z_counter) axis_z = z_counter"

definition origin_array :: "xyz_row list \<Rightarrow> real \<Rightarrow> nat \<times> nat \<times> nat \<Rightarrow> axis \<Rightarrow> real" where
  "origin_array xyz maximum_edge_length counters ax =
     minimum xyz ax + cuboid_diagonal xyz maximum_edge_length ax / 2
     + real (counter_of counters ax) * cuboid_diagonal xyz maximum_edge_length ax"

fun origin1D :: "xyz_row list \<Rightarrow> real \<Rightarrow> axis \<Rightarrow> nat \<Rightarrow> real" where
  "origin1D xyz mel axis_x counter = origin_array xyz mel (counter, 0, 0) axis_x"
| "origin1D xyz mel axis_y counter = origin_array xyz mel (0, counter, 0) axis_y"
| "origin1D xyz mel axis_z counter = origin_array xyz mel (0, 0, counter) axis_z"

text \<open>
  The labels of the atoms whose coordinate lies in the half-open interval
  \<open>[lo, hi)\<close>: the positions where the boolean vector holds, sent through
  \<^verbatim>\<open>convert[axis]\<close>.
\<close>

definition interval_indices :: "xyz_row list \<Rightarrow> axis \<Rightarrow> real \<Rightarrow> real \<Rightarrow> int set" where
  "interval_indices xyz ax lo hi =
     (let bool_vec = map (\<lambda>v. lo \<le> v \<and> v < hi) (sorted_arrays xyz ax);
          nonzero = filter (\<lambda>i. bool_vec ! i) [0..<length bool_vec]
      in set (map (\<lambda>i. convert xyz ax ! i) nonzero))"

definition index_small :: "xyz_row list \<Rightarrow> real \<Rightarrow> axis \<Rightarrow> nat \<Rightarrow> int set" where
  "index_small xyz mel ax counter =
     interval_indices xyz ax
       (origin1D xyz mel ax counter - edge_small xyz mel ax / 2)
       (origin1D xyz mel ax counter + edge_small xyz mel ax / 2)"

definition index_big :: "xyz_row list \<Rightarrow> real \<Rightarrow> real \<Rightarrow> axis \<Rightarrow> nat \<Rightarrow> int set" where
  "index_big xyz mel difference_edge ax counter =
     interval_indices xyz ax
       (origin1D xyz mel ax counter - edge_big xyz mel difference_edge ax / 2)
       (origin1D xyz mel ax counter + edge_big xyz mel difference_edge ax / 2)"

text \<open>
  A cuboid: its integer coordinates, the labels of its small cuboid and those of its big
  cuboid. When the whole molecule is one cuboid both are the frame's index itself; else
  they are Python sets, whose iteration order the language leaves open: the model lists
  them in ascending order.
\<close>

type_synonym cuboid = "(nat \<times> nat \<times> nat) \<times> int list \<times> int list"

definition cube :: "xyz_row list \<Rightarrow> real \<Rightarrow> real \<Rightarrow> nat \<times> nat \<times> nat \<Rightarrow> cuboid" where
  "cube xyz mel difference_edge counters =
     (counters,
      sorted_list_of_set
        (index_small xyz mel axis_x (counter_of counters axis_x)
         \<inter> index_small xyz mel axis_y (counter_of counters axis_y)
         \<inter> index_small xyz mel axis_z (counter_of counters axis_z)),
      sorted_list_of_set
        (index_big xyz mel difference_edge axis_x (counter_of counters axis_x)
         \<inter> index_big xyz mel difference_edge axis_y (counter_of counters axis_y)
         \<inter> index_big xyz mel difference_edge axis_z (counter_of counters axis_z)))"

text \<open>
  The frame must have a row (\<^verbatim>\<open>sorted_arrays[key][0]\<close> raises IndexError
  otherwise). A zero \<^verbatim>\<open>maximum_edge_length\<close> makes NumPy return infinity, whose
  cast to int is the least 64-bit integer; like any negative step it makes
  \<^verbatim>\<open>np.empty\<close> raise ValueError. If some axis has zero steps and another has
  some, reading \<^verbatim>\<open>origin_array\<close> for \<^verbatim>\<open>origin1D\<close> raises IndexError.
\<close>

definition divide_et_impera :: "xyz_row list \<Rightarrow> real \<Rightarrow> real \<Rightarrow> py_error + cuboid list" where
  "divide_et_impera xyz maximum_edge_length difference_edge =
     (if xyz = [] then Inl IndexError
      else if maximum_edge_length = 0 then Inl ValueError
      else
        let sx = steps xyz maximum_edge_length axis_x;
            sy = steps xyz maximum_edge_length axis_y;
            sz = steps xyz maximum_edge_length axis_z
        in if (sx, sy, sz) = (1, 1, 1)
           then Inr [((0, 0, 0), frame_index xyz, frame_index xyz)]
           else if sx < 0 \<or> sy < 0 \<or> sz < 0 then Inl ValueError
           else if (0 < sx \<or> 0 < sy \<or> 0 < sz) \<and> (sx = 0 \<or> sy = 0 \<or> sz = 0) then Inl IndexError
           else Inr (map (cube xyz maximum_edge_length difference_edge)
                       (List.product [0..<nat sx] (List.product [0..<nat sy] [0..<nat sz]))))"

section \<open>\<^verbatim>\<open>get_bonds\<close>: the whole calculation and the lookup\<close>

fun over_cuboids ::
  "xyz_row list \<Rightarrow> (int \<rightharpoonup> int) \<Rightarrow> (int \<rightharpoonup> real) \<Rightarrow> bool \<Rightarrow> cuboid list \<Rightarrow> graph \<Rightarrow> py_error + graph" where
  "over_cuboids xyz valency_dic bond_size_dic use_valency [] bond_dic = Inr bond_dic"
| "over_cuboids xyz valency_dic bond_size_dic use_valency ((key, small, big) # rest) bond_dic =
     (case get_bonds_local xyz bond_dic valency_dic bond_size_dic use_valency big of
        Inl e \<Rightarrow> Inl e
      | Inr bond_dic' \<Rightarrow> over_cuboids xyz valency_dic bond_size_dic use_valency rest bond_dic')"

definition complete_calculation ::
  "(string \<rightharpoonup> atom_props) \<Rightarrow> xyz_row list \<Rightarrow> (int \<rightharpoonup> atom_props) option \<Rightarrow> real \<Rightarrow> real \<Rightarrow>
   bool \<Rightarrow> bool \<Rightarrow> py_error + graph" where
  "complete_calculation atom_properties xyz modified_properties maximum_edge_length
     difference_edge use_valency use_divide =
     (case preparation_of_variables atom_properties xyz modified_properties of Inl e \<Rightarrow> Inl e
      | Inr (bond_dic, valency_dic, bond_size_dic) \<Rightarrow>
          if use_divide then
            (case divide_et_impera xyz maximum_edge_length difference_edge of Inl e \<Rightarrow> Inl e
             | Inr cuboid_dic \<Rightarrow>
                 over_cuboids xyz valency_dic bond_size_dic use_valency cuboid_dic bond_dic)
          else get_bonds_local xyz bond_dic valency_dic bond_size_dic use_valency (frame_index xyz))"

text \<open>
  \<^verbatim>\<open>get_bonds\<close> returns the dictionary and, since it may set \<^verbatim>\<open>__bond_dic\<close>,
  the instance after the call.
\<close>

definition get_bonds ::
  "(string \<rightharpoonup> atom_props) \<Rightarrow> Cartesian \<Rightarrow> (int \<rightharpoonup> atom_props) option \<Rightarrow> real \<Rightarrow> real \<Rightarrow>
   bool \<Rightarrow> bool \<Rightarrow> bool \<Rightarrow> bool \<Rightarrow> py_error + graph \<times> Cartesian" where
  "get_bonds atom_properties self modified_properties maximum_edge_length difference_edge
     use_valency use_lookup set_lookup use_divide =
     (let calculate =
        (case complete_calculation atom_properties (xyz_frame self) modified_properties
                maximum_edge_length difference_edge use_valency use_divide of
           Inl e \<Rightarrow> Inl e
         | Inr bond_dic \<Rightarrow>
             Inr (bond_dic, if set_lookup then self\<lparr>bond_dic_attr := Some bond_dic\<rparr> else self))
      in if use_lookup then
           (case bond_dic_attr self of Some bond_dic \<Rightarrow> Inr (bond_dic, self) | None \<Rightarrow> calculate)
         else calculate)"

section \<open>\<^verbatim>\<open>_connected_to\<close> and \<^verbatim>\<open>connected_to\<close>\<close>

text \<open>
  \<^verbatim>\<open>
  exclude = set([]) if (exclude is None) else set(exclude)
  included_atoms_set = (set([index_of_atom]) | set(bond_dic[index_of_atom])) - exclude
  included_atoms_list = list(included_atoms_set)
  for index in included_atoms_list:
      new_atoms = (bond_dic[index] - included_atoms_set) - exclude
      included_atoms_set = new_atoms | included_atoms_set
      for atom in new_atoms:
          included_atoms_list.append(atom)
  return set(included_atoms_list)
  \<close>
  The \<^verbatim>\<open>for\<close> loop runs over a list that grows while it is read: the state is the
  set, the part of the list already read and the part still to read. A Python set is
  listed in ascending order (the language leaves the order open). The loop is a partial
  function: not returning is the value \<open>None\<close>.
\<close>

partial_function (option) connected_loop ::
  "graph \<Rightarrow> int set \<Rightarrow> int set \<Rightarrow> int list \<Rightarrow> int list \<Rightarrow> (py_error + int set) option" where
  "connected_loop bond_dic exclude included_atoms_set read unread =
     (case unread of
        [] \<Rightarrow> Some (Inr (set read))
      | index # rest \<Rightarrow>
          (case bond_dic index of
             None \<Rightarrow> Some (Inl KeyError)
           | Some bonded \<Rightarrow>
               let new_atoms = (bonded - included_atoms_set) - exclude
               in connected_loop bond_dic exclude (new_atoms \<union> included_atoms_set)
                    (read @ [index]) (rest @ sorted_list_of_set new_atoms)))"

definition connected_to_static ::
  "int \<Rightarrow> graph \<Rightarrow> int list option \<Rightarrow> (py_error + int set) option" where
  "connected_to_static index_of_atom bond_dic exclude =
     (let exclude = (case exclude of None \<Rightarrow> {} | Some xs \<Rightarrow> set xs)
      in case bond_dic index_of_atom of
           None \<Rightarrow> Some (Inl KeyError)
         | Some bonded \<Rightarrow>
             let included_atoms_set = ({index_of_atom} \<union> bonded) - exclude
             in connected_loop bond_dic exclude included_atoms_set []
                  (sorted_list_of_set included_atoms_set))"

text \<open>
  The public method. Its \<^verbatim>\<open>exclude\<close> argument is not handed on: the call is
  \<^verbatim>\<open>self._connected_to(index_of_atom, bond_dic, exclude=None)\<close>. It returns the new
  \<^verbatim>\<open>Cartesian\<close> of the rows found, and the instance, whose lookup
  \<^verbatim>\<open>get_bonds(use_lookup=True)\<close> may have set.
\<close>

definition connected_to ::
  "(string \<rightharpoonup> atom_props) \<Rightarrow> Cartesian \<Rightarrow> int \<Rightarrow> int list option \<Rightarrow>
   (py_error + Cartesian \<times> Cartesian) option" where
  "connected_to atom_properties self index_of_atom exclude =
     (case get_bonds atom_properties self None 25 6 False True True True of
        Inl e \<Rightarrow> Some (Inl e)
      | Inr (bond_dic, self') \<Rightarrow>
          (case connected_to_static index_of_atom bond_dic None of
             None \<Rightarrow> None
           | Some (Inl e) \<Rightarrow> Some (Inl e)
           | Some (Inr fragment_index) \<Rightarrow>
               (case loc_rows (xyz_frame self) (sorted_list_of_set fragment_index) of
                  Inl e \<Rightarrow> Some (Inl e)
                | Inr rows \<Rightarrow> Some (Inr (\<lparr>xyz_frame = rows, bond_dic_attr = None\<rparr>, self')))))"

section \<open>\<^verbatim>\<open>dihedral_degrees\<close>\<close>

text \<open>\<^verbatim>\<open>np.cross\<close>, \<^verbatim>\<open>np.dot\<close> and the division of a vector by a number.\<close>

fun cross :: "vec3 \<Rightarrow> vec3 \<Rightarrow> vec3" where
  "cross (a, b, c) (a', b', c') = (b * c' - c * b', c * a' - a * c', a * b' - b * a')"

fun dot :: "vec3 \<Rightarrow> vec3 \<Rightarrow> real" where
  "dot (a, b, c) (a', b', c') = a * a' + b * b' + c * c'"

fun vdiv :: "vec3 \<Rightarrow> real \<Rightarrow> vec3" where
  "vdiv (a, b, c) r = (a / r, b / r, c / r)"

text \<open>
  Modelled from the spec: \<^verbatim>\<open>utilities.normalize\<close>, of a module that is not among the
  sources at hand. The specification speaks of normalised vectors and of a degenerate
  geometry condition for a vector of length zero.
\<close>

text \<open>(\<open>normalize\<close> is a constant of HOL already, hence the suffix.)\<close>

definition normalize_vec :: "vec3 \<Rightarrow> py_error + vec3" where
  "normalize_vec v = (if linalg_norm v = 0 then Inl DegenerateGeometry else Inr (vdiv v (linalg_norm v)))"

text \<open>
  Modelled from the spec: \<^verbatim>\<open>utilities.give_angle\<close>, of the same missing module: the
  angle in degrees between two vectors, ``computed via the standard inverse-cosine of
  normalized vectors, clamped to [0, 180]''.
\<close>

definition degrees :: "real \<Rightarrow> real" where
  "degrees r = r * 180 / pi"

definition give_angle :: "vec3 \<Rightarrow> vec3 \<Rightarrow> py_error + real" where
  "give_angle Vector1 Vector2 =
     (case normalize_vec Vector1 of Inl e \<Rightarrow> Inl e
      | Inr vector1 \<Rightarrow>
          (case normalize_vec Vector2 of Inl e \<Rightarrow> Inl e
           | Inr vector2 \<Rightarrow>
               let scalar_product = max (- 1) (min 1 (dot vector1 vector2))
               in Inr (degrees (arccos scalar_product))))"

text \<open>
  \<^verbatim>\<open>self.location(indexlist)\<close>: the coordinates of the labels in the list, KeyError
  when a label is not in the frame.
\<close>

definition location :: "xyz_row list \<Rightarrow> int list \<Rightarrow> py_error + vec3 list" where
  "location xyz indexlist =
     (case loc_rows xyz indexlist of Inl e \<Rightarrow> Inl e | Inr rows \<Rightarrow> Inr (map row_location rows))"

text \<open>
  \<^verbatim>\<open>
  vi, vb, va, vd = self.location([index, bond_with, angle_with, dihedral_with])
  DA = va - vd;  AB = vb - va;  BI = vi - vb
  n1 = utilities.normalize(np.cross(DA, AB))
  n2 = utilities.normalize(np.cross(AB, BI))
  dihedral = utilities.give_angle(n1, n2)
  if (dihedral != 0):
      dihedral = dihedral if 0 < np.dot(AB, np.cross(n1, n2)) else 360 - dihedral
  return dihedral
  \<close>
\<close>

definition dihedral_degrees :: "xyz_row list \<Rightarrow> int \<Rightarrow> int \<Rightarrow> int \<Rightarrow> int \<Rightarrow> py_error + real" where
  "dihedral_degrees xyz index bond_with angle_with dihedral_with =
     (case location xyz [index, bond_with, angle_with, dihedral_with] of
        Inl e \<Rightarrow> Inl e
      | Inr vs \<Rightarrow>
          let vi = vs ! 0; vb = vs ! 1; va = vs ! 2; vd = vs ! 3;
              DA = vsub va vd; AB = vsub vb va; BI = vsub vi vb
          in case normalize_vec (cross DA AB) of Inl e \<Rightarrow> Inl e
             | Inr n1 \<Rightarrow>
                 (case normalize_vec (cross AB BI) of Inl e \<Rightarrow> Inl e
                  | Inr n2 \<Rightarrow>
                      (case give_angle n1 n2 of Inl e \<Rightarrow> Inl e
                       | Inr dihedral \<Rightarrow>
                           Inr (if dihedral \<noteq> 0
                                then (if 0 < dot AB (cross n1 n2) then dihedral else 360 - dihedral)
                                else dihedral))))"

section \<open>\<^verbatim>\<open>to_zmat\<close>: the checks before the build order\<close>

text \<open>
  An element of a Python list that is an integer or a list of integers: the elements of
  a fragment (its first three are build entries, the others atom labels) and of a build
  order.
\<close>

datatype py_item = PyInt int | PyList "int list"

text \<open>\<^verbatim>\<open>element[0]\<close>: an integer cannot be subscripted, an empty list has no element.\<close>

fun element0 :: "py_item \<Rightarrow> py_error + int" where
  "element0 (PyInt k) = Inl TypeError"
| "element0 (PyList []) = Inl IndexError"
| "element0 (PyList (k # ks)) = Inr k"



text \<open>
  After its preparation an element of a fragment is one of the first three, kept as it
  is, or \<^verbatim>\<open>[number]\<close> for a later element \<^verbatim>\<open>number\<close>.
\<close>

datatype prepared = Kept py_item | Wrapped py_item


text \<open>
  \<^verbatim>\<open>set([element[0] for element in fragment])\<close> on a prepared fragment: the first
  element of \<^verbatim>\<open>[number]\<close> is \<^verbatim>\<open>number\<close>, and a list cannot be a member of a set.
\<close>

fun prepared_key :: "prepared \<Rightarrow> py_error + py_item" where
  "prepared_key (Kept item) = (case element0 item of Inl e \<Rightarrow> Inl e | Inr k \<Rightarrow> Inr (PyInt k))"
| "prepared_key (Wrapped item) = Inr item"

fun hashable :: "py_item \<Rightarrow> py_error + int" where
  "hashable (PyInt k) = Inr k"
| "hashable (PyList l) = Inl TypeError"

definition fragment_index :: "prepared list \<Rightarrow> py_error + int set" where
  "fragment_index fragment =
     (case comprehension prepared_key fragment of Inl e \<Rightarrow> Inl e
      | Inr items \<Rightarrow>
          (case comprehension hashable items of Inl e \<Rightarrow> Inl e | Inr keys \<Rightarrow> Inr (set keys)))"




section \<open>\<^verbatim>\<open>_order_of_building\<close>\<close>

text \<open>
  The two functions of this and the next section were moved into the class without
  being finished: they call \<^verbatim>\<open>mass\<close>, \<^verbatim>\<open>distance_frame\<close> and \<^verbatim>\<open>distance\<close> as
  plain functions, \<^verbatim>\<open>_order_of_building\<close> reads \<^verbatim>\<open>xyz_frame\<close> where its frame is
  \<^verbatim>\<open>frame\<close> and a \<^verbatim>\<open>recursion\<close> it does not declare, and \<^verbatim>\<open>_get_reference\<close>
  reads a \<^verbatim>\<open>self\<close> it does not declare. The model reads these names as the methods of
  the same names, the frame at hand and the argument \<^verbatim>\<open>recursion\<close> that
  \<^verbatim>\<open>to_zmat\<close> passes.
\<close>

text \<open>\<^verbatim>\<open>distance_frame\<close>: the labels of the rows asked for, each with its distance from the origin.\<close>

definition distance_frame :: "xyz_row list \<Rightarrow> int list \<Rightarrow> vec3 \<Rightarrow> py_error + (int \<times> real) list" where
  "distance_frame xyz indices_of_other_atoms origin =
     (case loc_rows xyz indices_of_other_atoms of Inl e \<Rightarrow> Inl e
      | Inr rows \<Rightarrow>
          Inr (map (\<lambda>r. (row_index r, linalg_norm (vsub (row_location r) origin))) rows))"

text \<open>\<^verbatim>\<open>series.idxmin()\<close>: the label of the first least value; ValueError on an empty series.\<close>

fun first_least :: "int \<times> real \<Rightarrow> (int \<times> real) list \<Rightarrow> int \<times> real" where
  "first_least best [] = best"
| "first_least best (kd # rest) = first_least (if snd kd < snd best then kd else best) rest"

fun idxmin :: "(int \<times> real) list \<Rightarrow> py_error + int" where
  "idxmin [] = Inl ValueError"
| "idxmin (kd # rest) = Inr (fst (first_least kd rest))"

text \<open>
  \<^verbatim>\<open>mass(frame)['topologic_center']\<close>: the mean of the locations. \<^verbatim>\<open>mass\<close> looks
  every element up in \<^verbatim>\<open>constants.atom_properties\<close> first.
\<close>

fun vadd :: "vec3 \<Rightarrow> vec3 \<Rightarrow> vec3" where
  "vadd (a, b, c) (a', b', c') = (a + a', b + b', c + c')"

definition topologic_center :: "(string \<rightharpoonup> atom_props) \<Rightarrow> xyz_row list \<Rightarrow> py_error + vec3" where
  "topologic_center atom_properties xyz =
     (case comprehension (\<lambda>r. getitem atom_properties (row_atom r)) xyz of Inl e \<Rightarrow> Inl e
      | Inr masses \<Rightarrow>
          Inr (vdiv (foldl vadd (0, 0, 0) (map row_location xyz)) (real (length xyz))))"

text \<open>
  A label held in the variables \<^verbatim>\<open>index\<close> and \<^verbatim>\<open>previous\<close> is an integer or, after
  \<^verbatim>\<open>index = already_built[-1:]\<close>, a list of one integer. \<^verbatim>\<open>xyz_frame.ix[label, ...]\<close>
  finds the row either way (no other list gets there); \<^verbatim>\<open>distance\<close> puts its labels
  into a set, which a list cannot enter.
\<close>

fun ix_location :: "xyz_row list \<Rightarrow> py_item \<Rightarrow> py_error + vec3" where
  "ix_location xyz (PyInt k) =
     (case loc_row xyz k of Inl e \<Rightarrow> Inl e | Inr r \<Rightarrow> Inr (row_location r))"
| "ix_location xyz (PyList [k]) =
     (case loc_row xyz k of Inl e \<Rightarrow> Inl e | Inr r \<Rightarrow> Inr (row_location r))"
| "ix_location xyz (PyList ks) = Inl ValueError"

fun distance :: "xyz_row list \<Rightarrow> py_item \<Rightarrow> py_item \<Rightarrow> py_error + real" where
  "distance xyz (PyInt index) (PyInt bond_with) =
     (case location xyz [index, bond_with] of Inl e \<Rightarrow> Inl e
      | Inr vs \<Rightarrow> Inr (linalg_norm (vsub (vs ! 1) (vs ! 0))))"
| "distance xyz index bond_with = Inl TypeError"

definition zero_reference :: "xyz_row list \<Rightarrow> int list \<Rightarrow> vec3 \<Rightarrow> py_error + int" where
  "zero_reference xyz to_be_built center =
     (case distance_frame xyz to_be_built center of Inl e \<Rightarrow> Inl e
      | Inr frame_distance \<Rightarrow> idxmin frame_distance)"

definition one_reference :: "xyz_row list \<Rightarrow> int list \<Rightarrow> py_item \<Rightarrow> py_error + int \<times> py_item" where
  "one_reference xyz to_be_built previous =
     (case ix_location xyz previous of Inl e \<Rightarrow> Inl e
      | Inr previous_atom \<Rightarrow>
          (case distance_frame xyz to_be_built previous_atom of Inl e \<Rightarrow> Inl e
           | Inr frame_distance_previous \<Rightarrow>
               (case idxmin frame_distance_previous of Inl e \<Rightarrow> Inl e
                | Inr index \<Rightarrow> Inr (index, previous))))"

definition two_references ::
  "xyz_row list \<Rightarrow> int list \<Rightarrow> py_item \<Rightarrow> py_item \<Rightarrow> py_error + int \<times> py_item" where
  "two_references xyz to_be_built previous before_previous =
     (case ix_location xyz previous of Inl e \<Rightarrow> Inl e
      | Inr previous_atom \<Rightarrow>
          (case ix_location xyz before_previous of Inl e \<Rightarrow> Inl e
           | Inr before_previous_atom \<Rightarrow>
               (case distance_frame xyz to_be_built previous_atom of Inl e \<Rightarrow> Inl e
                | Inr frame_distance_previous \<Rightarrow>
                    (case distance_frame xyz to_be_built before_previous_atom of Inl e \<Rightarrow> Inl e
                     | Inr frame_distance_before_previous \<Rightarrow>
                         let summed_distance =
                               map (\<lambda>((k, d), (k', d')). (k, d + d'))
                                 (zip frame_distance_previous frame_distance_before_previous)
                         in (case idxmin summed_distance of Inl e \<Rightarrow> Inl e
                             | Inr index \<Rightarrow> Inr (index, previous))))))"

text \<open>
  The variables of the loops: \<^verbatim>\<open>index\<close> and \<^verbatim>\<open>previous\<close> (unbound until assigned),
  \<^verbatim>\<open>mode\<close>, \<^verbatim>\<open>already_built\<close> and \<^verbatim>\<open>to_be_built\<close>.
\<close>

record build_state =
  st_index :: "py_item option"
  st_previous :: "py_item option"
  st_mode :: nat
  st_already_built :: "int list"
  st_to_be_built :: "int list"

text \<open>Reading a variable that may be unbound.\<close>

definition read_var :: "'a option \<Rightarrow> py_error + 'a" where
  "read_var v = (case v of None \<Rightarrow> Inl UnboundLocalError | Some x \<Rightarrow> Inr x)"

text \<open>
  \<^verbatim>\<open>already_built.append(index); to_be_built.remove(index)\<close>. A list is never an
  element of \<^verbatim>\<open>to_be_built\<close>, so the removal raises for it.
\<close>

definition append_and_remove :: "build_state \<Rightarrow> py_error + build_state" where
  "append_and_remove st =
     (case read_var (st_index st) of Inl e \<Rightarrow> Inl e
      | Inr (PyList l) \<Rightarrow> Inl ValueError
      | Inr (PyInt k) \<Rightarrow>
          if k \<in> set (st_to_be_built st)
          then Inr (st\<lparr>st_already_built := st_already_built st @ [k],
                       st_to_be_built := remove1 k (st_to_be_built st)\<rparr>)
          else Inl ValueError)"

text \<open>
  The choice of a nearest atom that is given up for the atom nearest to the centre
  when the bond would be longer than the threshold (7 or 5).
\<close>

definition within_threshold ::
  "xyz_row list \<Rightarrow> vec3 \<Rightarrow> real \<Rightarrow> build_state \<Rightarrow> int \<times> py_item \<Rightarrow> bool \<Rightarrow> py_error + build_state" where
  "within_threshold xyz center threshold st chosen set_mode =
     (case distance xyz (PyInt (fst chosen)) (snd chosen) of Inl e \<Rightarrow> Inl e
      | Inr bond_length \<Rightarrow>
          if bond_length > threshold then
            (case zero_reference xyz (st_to_be_built st) center of Inl e \<Rightarrow> Inl e
             | Inr index \<Rightarrow>
                 Inr (st\<lparr>st_index := Some (PyInt index), st_previous := Some (snd chosen),
                          st_mode := (if set_mode then 1 else st_mode st)\<rparr>))
          else Inr (st\<lparr>st_index := Some (PyInt (fst chosen)), st_previous := Some (snd chosen)\<rparr>))"

text \<open>One pass of the loop for \<^verbatim>\<open>recursion == 2\<close>, before the append and removal.\<close>

definition choose_2 :: "xyz_row list \<Rightarrow> vec3 \<Rightarrow> build_state \<Rightarrow> py_error + build_state" where
  "choose_2 xyz center st =
     (if length (st_already_built st) > 1 \<or> st_mode st = 2 then
        (case read_var (st_index st) of Inl e \<Rightarrow> Inl e
         | Inr index \<Rightarrow>
             (case read_var (st_previous st) of Inl e \<Rightarrow> Inl e
              | Inr previous \<Rightarrow>
                  (case two_references xyz (st_to_be_built st) index previous of Inl e \<Rightarrow> Inl e
                   | Inr chosen \<Rightarrow> within_threshold xyz center 7 st chosen True)))
      else if length (st_already_built st) = 1 \<or> st_mode st = 1 then
        (case read_var (st_index st) of Inl e \<Rightarrow> Inl e
         | Inr index \<Rightarrow>
             (case one_reference xyz (st_to_be_built st) index of Inl e \<Rightarrow> Inl e
              | Inr chosen \<Rightarrow>
                  Inr (st\<lparr>st_index := Some (PyInt (fst chosen)), st_previous := Some (snd chosen),
                           st_mode := 2\<rparr>)))
      else if st_already_built st = [] then
        (case zero_reference xyz (st_to_be_built st) center of Inl e \<Rightarrow> Inl e
         | Inr index \<Rightarrow> Inr (st\<lparr>st_index := Some (PyInt index), st_mode := 1\<rparr>))
      else Inr st)"

text \<open>One pass of the loop for \<^verbatim>\<open>recursion == 1\<close>, before the append and removal.\<close>

definition choose_1 :: "xyz_row list \<Rightarrow> vec3 \<Rightarrow> build_state \<Rightarrow> py_error + build_state" where
  "choose_1 xyz center st =
     (if length (st_already_built st) > 0 then
        (case read_var (st_index st) of Inl e \<Rightarrow> Inl e
         | Inr index \<Rightarrow>
             (case one_reference xyz (st_to_be_built st) index of Inl e \<Rightarrow> Inl e
              | Inr chosen \<Rightarrow> within_threshold xyz center 5 st chosen False))
      else if st_already_built st = [] then
        (case zero_reference xyz (st_to_be_built st) center of Inl e \<Rightarrow> Inl e
         | Inr index \<Rightarrow> Inr (st\<lparr>st_index := Some (PyInt index)\<rparr>))
      else Inr st)"

text \<open>\<^verbatim>\<open>for _ in range(number_of_atoms_to_add)\<close>: a pass is a choice, then the append and removal.\<close>

fun passes :: "nat \<Rightarrow> (build_state \<Rightarrow> py_error + build_state) \<Rightarrow> build_state \<Rightarrow> py_error + build_state" where
  "passes 0 choice st = Inr st"
| "passes (Suc n) choice st =
     (case choice st of Inl e \<Rightarrow> Inl e
      | Inr st' \<Rightarrow>
          (case append_and_remove st' of Inl e \<Rightarrow> Inl e | Inr st'' \<Rightarrow> passes n choice st''))"

text \<open>\<^verbatim>\<open>for element in already_built: to_be_built.remove(element)\<close>.\<close>

definition order_key :: "py_item \<Rightarrow> py_error + int" where
  "order_key element = (case element of PyInt k \<Rightarrow> Inr k | PyList l \<Rightarrow> element0 (PyList l))"

text \<open>
  \<^verbatim>\<open>
  try:
      buildlist = copy.deepcopy(already_built)
      already_built = [element[0] for element in already_built]
  except:
      pass
  \<close>
  When an element cannot be subscripted the list stays as it was; a list among its
  elements then makes the removal from \<^verbatim>\<open>to_be_built\<close> raise.
\<close>

definition prefix_keys :: "py_item list \<Rightarrow> py_error + int list" where
  "prefix_keys already_built =
     (case comprehension element0 already_built of
        Inr keys \<Rightarrow> Inr keys
      | Inl e \<Rightarrow> comprehension (\<lambda>element. case element of PyInt k \<Rightarrow> Inr k
                                              | PyList l \<Rightarrow> Inl ValueError) already_built)"

fun remove_prefix :: "int list \<Rightarrow> int list \<Rightarrow> py_error + int list" where
  "remove_prefix [] to_be_built = Inr to_be_built"
| "remove_prefix (element # rest) to_be_built =
     (if element \<in> set to_be_built then remove_prefix rest (remove1 element to_be_built)
      else Inl ValueError)"

text \<open>\<^verbatim>\<open>previous, index = already_built[-2:]\<close>, or \<^verbatim>\<open>index = already_built[-1:]\<close>.\<close>

definition initial_state :: "int list \<Rightarrow> int list \<Rightarrow> build_state" where
  "initial_state already_built to_be_built =
     \<lparr>st_index =
        (if length already_built > 1 then Some (PyInt (last already_built))
         else if length already_built = 1 then Some (PyList [last already_built])
         else None),
      st_previous =
        (if length already_built > 1 then Some (PyInt (last (butlast already_built))) else None),
      st_mode = 0,
      st_already_built = already_built,
      st_to_be_built = to_be_built\<rparr>"

definition order_of_building ::
  "(string \<rightharpoonup> atom_props) \<Rightarrow> xyz_row list \<Rightarrow> int \<Rightarrow> int list option \<Rightarrow> py_item list option \<Rightarrow>
   py_error + py_item list" where
  "order_of_building atom_properties xyz recursion to_be_built already_built =
     (let buildlist = (case already_built of None \<Rightarrow> [] | Some l \<Rightarrow> l);
          to_be_built = (case to_be_built of None \<Rightarrow> frame_index xyz | Some l \<Rightarrow> l)
      in case prefix_keys buildlist of Inl e \<Rightarrow> Inl e
         | Inr already_built \<Rightarrow>
             (case remove_prefix already_built to_be_built of Inl e \<Rightarrow> Inl e
              | Inr to_be_built \<Rightarrow>
                  let number_of_atoms_to_add = length to_be_built
                  in case topologic_center atom_properties xyz of Inl e \<Rightarrow> Inl e
                     | Inr center \<Rightarrow>
                         if recursion \<notin> {0, 1, 2} then Inl AssertionError
                         else if set to_be_built \<inter> set already_built \<noteq> {} then Inl AssertionError
                         else
                           (case (if recursion = 2
                                  then passes number_of_atoms_to_add (choose_2 xyz center)
                                         (initial_state already_built to_be_built)
                                  else if recursion = 1
                                  then passes number_of_atoms_to_add (choose_1 xyz center)
                                         (initial_state already_built to_be_built)
                                  else Inr ((initial_state already_built to_be_built)
                                         \<lparr>st_already_built := already_built @ to_be_built\<rparr>)) of
                              Inl e \<Rightarrow> Inl e
                            | Inr st \<Rightarrow>
                                Inr (buildlist
                                     @ map PyInt (drop (length buildlist) (st_already_built st))))))"

section \<open>\<^verbatim>\<open>_get_reference\<close>\<close>

text \<open>
  \<^verbatim>\<open>
  for element in buildlist_given:
      if type(element) is list:
          defined_entries[element[0]] = element
          order_of_building.append(element[0])
      else:
          order_of_building.append(element)
  \<close>
  The keys, the new \<^verbatim>\<open>order_of_building\<close>, are \<open>order_keys\<close> below; an empty list
  among the elements raises IndexError.
\<close>

definition defined_entries_of :: "py_item list \<Rightarrow> int \<rightharpoonup> int list" where
  "defined_entries_of buildlist_given =
     py_dict (concat (map (\<lambda>element. case element of PyInt k \<Rightarrow> []
                                       | PyList l \<Rightarrow> (case l of [] \<Rightarrow> [] | k # ks \<Rightarrow> [(k, l)]))
                       buildlist_given))"

record reference_state =
  rs_reference_list :: "int list list"
  rs_already_built :: "int list"
  rs_to_be_built :: "int list"

definition first_atom :: "reference_state \<Rightarrow> int \<Rightarrow> py_error + reference_state" where
  "first_atom rs index_of_atom =
     (if index_of_atom \<in> set (rs_to_be_built rs)
      then Inr \<lparr>rs_reference_list = rs_reference_list rs @ [[index_of_atom]],
                rs_already_built = rs_already_built rs @ [index_of_atom],
                rs_to_be_built = remove1 index_of_atom (rs_to_be_built rs)\<rparr>
      else Inl ValueError)"

text \<open>\<^verbatim>\<open>reference_list.append(entry); already_built.append(to_be_built.pop(0))\<close>.\<close>

definition place :: "reference_state \<Rightarrow> int list \<Rightarrow> py_error + reference_state" where
  "place rs entry =
     (case rs_to_be_built rs of [] \<Rightarrow> Inl IndexError
      | k # rest \<Rightarrow>
          Inr \<lparr>rs_reference_list = rs_reference_list rs @ [entry],
               rs_already_built = rs_already_built rs @ [k],
               rs_to_be_built = rest\<rparr>)"

text \<open>
  \<^verbatim>\<open>distance_frame(xyz_frame.loc[already_built, :], self.location(index_of_atom))\<close>;
  a label that is missing raises KeyError in either argument.
\<close>

definition distances_to_other_atoms ::
  "xyz_row list \<Rightarrow> int list \<Rightarrow> int \<Rightarrow> py_error + (int \<times> real) list" where
  "distances_to_other_atoms xyz already_built index_of_atom =
     (case location xyz [index_of_atom] of Inl e \<Rightarrow> Inl e
      | Inr vs \<Rightarrow> distance_frame xyz already_built (vs ! 0))"

text \<open>
  \<^verbatim>\<open>list(distances.sort_values(by='distance').iloc[0:k, :].index)\<close>: the labels of the
  \<open>k\<close> nearest rows. Rows at the same distance are kept in their order.
\<close>

definition nearest_labels :: "nat \<Rightarrow> (int \<times> real) list \<Rightarrow> int list" where
  "nearest_labels k distances = map fst (take k (sort_key snd distances))"

definition second_atom ::
  "(int \<rightharpoonup> int list) \<Rightarrow> xyz_row list \<Rightarrow> reference_state \<Rightarrow> int \<Rightarrow> py_error + reference_state" where
  "second_atom defined_entries xyz rs index_of_atom =
     (case defined_entries index_of_atom of
        Some entry \<Rightarrow> place rs entry
      | None \<Rightarrow>
          (case distances_to_other_atoms xyz (rs_already_built rs) index_of_atom of
             Inl e \<Rightarrow> Inl e
           | Inr distances \<Rightarrow>
               (case idxmin distances of Inl e \<Rightarrow> Inl e
                | Inr bond_with \<Rightarrow> place rs [index_of_atom, bond_with])))"

definition third_atom ::
  "(int \<rightharpoonup> int list) \<Rightarrow> xyz_row list \<Rightarrow> reference_state \<Rightarrow> int \<Rightarrow> py_error + reference_state" where
  "third_atom defined_entries xyz rs index_of_atom =
     (case defined_entries index_of_atom of
        Some entry \<Rightarrow> place rs entry
      | None \<Rightarrow>
          (case distances_to_other_atoms xyz (rs_already_built rs) index_of_atom of
             Inl e \<Rightarrow> Inl e
           | Inr distances \<Rightarrow>
               (case nearest_labels 2 distances of
                  [bond_with, angle_with] \<Rightarrow> place rs [index_of_atom, bond_with, angle_with]
                | _ \<Rightarrow> Inl ValueError)))"

definition other_atom ::
  "(int \<rightharpoonup> int list) \<Rightarrow> xyz_row list \<Rightarrow> reference_state \<Rightarrow> int \<Rightarrow> py_error + reference_state" where
  "other_atom defined_entries xyz rs index_of_atom =
     (case defined_entries index_of_atom of
        Some entry \<Rightarrow> place rs entry
      | None \<Rightarrow>
          (case distances_to_other_atoms xyz (rs_already_built rs) index_of_atom of
             Inl e \<Rightarrow> Inl e
           | Inr distances \<Rightarrow>
               (case nearest_labels 3 distances of
                  [bond_with, angle_with, dihedral_with] \<Rightarrow>
                    place rs [index_of_atom, bond_with, angle_with, dihedral_with]
                | _ \<Rightarrow> Inl ValueError)))"

text \<open>A call \<^verbatim>\<open>atom(to_be_built[0])\<close>, and calls one after the other.\<close>

definition at_front ::
  "(reference_state \<Rightarrow> int \<Rightarrow> py_error + reference_state) \<Rightarrow> reference_state \<Rightarrow>
   py_error + reference_state" where
  "at_front atom rs = (case rs_to_be_built rs of [] \<Rightarrow> Inl IndexError | k # rest \<Rightarrow> atom rs k)"

fun in_turn ::
  "(reference_state \<Rightarrow> py_error + reference_state) list \<Rightarrow> reference_state \<Rightarrow>
   py_error + reference_state" where
  "in_turn [] rs = Inr rs"
| "in_turn (call # calls) rs =
     (case call rs of Inl e \<Rightarrow> Inl e | Inr rs' \<Rightarrow> in_turn calls rs')"

definition get_reference :: "xyz_row list \<Rightarrow> py_item list \<Rightarrow> int \<Rightarrow> py_error + int list list" where
  "get_reference xyz buildlist_given recursion =
     (case comprehension order_key buildlist_given of Inl e \<Rightarrow> Inl e
      | Inr order_keys \<Rightarrow>
          let defined_entries = defined_entries_of buildlist_given;
              n_atoms = length order_keys;
              first = at_front first_atom;
              second = at_front (second_atom defined_entries xyz);
              third = at_front (third_atom defined_entries xyz);
              other = at_front (other_atom defined_entries xyz)
          in if recursion > 0 then
               (case in_turn
                       (if n_atoms = 1 then [first, second, third]
                        else if n_atoms = 2 then [first, second]
                        else if n_atoms = 3 then [first, second, third]
                        else if n_atoms > 3 then [first, second, third] @ replicate (n_atoms - 3) other
                        else [])
                       \<lparr>rs_reference_list = [], rs_already_built = [],
                        rs_to_be_built = order_keys\<rparr> of
                  Inl e \<Rightarrow> Inl e
                | Inr rs \<Rightarrow> Inr (rs_reference_list rs))
             else
               Inr (if n_atoms = 1 then [[order_keys ! 0]]
                    else if n_atoms = 2
                    then [[order_keys ! 0], [order_keys ! 1, order_keys ! 0]]
                    else if n_atoms = 3
                    then [[order_keys ! 0], [order_keys ! 1, order_keys ! 0],
                          [order_keys ! 2, order_keys ! 1, order_keys ! 0]]
                    else if n_atoms > 3
                    then [[order_keys ! 0], [order_keys ! 1, order_keys ! 0],
                          [order_keys ! 2, order_keys ! 1, order_keys ! 0]]
                         @ map (\<lambda>i. [order_keys ! i, order_keys ! (i - 1),
                                      order_keys ! (i - 2), order_keys ! (i - 3)])
                             [3..<n_atoms]
                    else []))"

section \<open>Predicates used in the statements\<close>

text \<open>An array that equals its transpose, and an adjacency in which bonds go both ways.\<close>

definition symmetric_array :: "array2 \<Rightarrow> bool" where
  "symmetric_array a \<longleftrightarrow> (\<forall>i j. a i j = a j i)"

definition symmetric_graph :: "graph \<Rightarrow> bool" where
  "symmetric_graph g \<longleftrightarrow> (\<forall>A B s t. g A = Some s \<longrightarrow> g B = Some t \<longrightarrow> (B \<in> s \<longleftrightarrow> A \<in> t))"


text \<open>
  What is asked of the cuboids: the small sets are pairwise disjoint, their union is the
  set of all labels, and every big set contains its small set.
\<close>

definition cells_partition :: "xyz_row list \<Rightarrow> cuboid list \<Rightarrow> bool" where
  "cells_partition xyz cells \<longleftrightarrow>
     (\<forall>i < length cells. \<forall>j < length cells. i \<noteq> j \<longrightarrow>
         set (fst (snd (cells ! i))) \<inter> set (fst (snd (cells ! j))) = {}) \<and>
     (\<Union>c \<in> set cells. set (fst (snd c))) = set (frame_index xyz) \<and>
     (\<forall>c \<in> set cells. set (fst (snd c)) \<subseteq> set (snd (snd c)))"


definition cut_bonds_to :: "nat \<Rightarrow> int list \<Rightarrow> nat \<Rightarrow> array2 \<Rightarrow> nat list" where
  "cut_bonds_to n tv i a =
     slice_from (tv ! i) (sort_values_descending (a i) (filter (\<lambda>j. a i j > 0) [0..<n]))"


text \<open>
  What is asked of the reference list of a build order: one entry for each key, headed
  by that key and followed by its references, none for the first key, one for the
  second, two for the third, three afterwards; the keys of an entry differ from each
  other, and the references are keys placed before.
\<close>

definition references_placed :: "int list \<Rightarrow> int list list \<Rightarrow> bool" where
  "references_placed order_keys reference_list \<longleftrightarrow>
     length reference_list = length order_keys \<and>
     (\<forall>i \<in> {..<length order_keys}.
        reference_list ! i \<noteq> [] \<and>
        hd (reference_list ! i) = order_keys ! i \<and>
        length (tl (reference_list ! i)) = min i 3 \<and>
        distinct (reference_list ! i) \<and>
        set (tl (reference_list ! i)) \<subseteq> set (take i order_keys))"

section \<open>Example molecules\<close>

text \<open>
  A table with one element, and three frames of hydrogen atoms on the x axis: one atom;
  two atoms 15 apart; four atoms at 0, 15, -14 and 32 (so that, with bond size 10, the
  overlaps are 5 between atoms 0 and 1, 6 between 0 and 2, and 3 between 1 and 3).
\<close>

definition hydrogen_table :: "string \<rightharpoonup> atom_props" where
  "hydrogen_table = [''H'' \<mapsto> \<lparr>valency = 1, bond_size = 10\<rparr>]"

definition h1_frame :: "xyz_row list" where
  "h1_frame = [\<lparr>row_index = 0, row_atom = ''H'', row_x = 0, row_y = 0, row_z = 0\<rparr>]"

definition h2_frame :: "xyz_row list" where
  "h2_frame = [\<lparr>row_index = 0, row_atom = ''H'', row_x = 0, row_y = 0, row_z = 0\<rparr>,
               \<lparr>row_index = 1, row_atom = ''H'', row_x = 15, row_y = 0, row_z = 0\<rparr>]"

definition h4_frame :: "xyz_row list" where
  "h4_frame = [\<lparr>row_index = 0, row_atom = ''H'', row_x = 0, row_y = 0, row_z = 0\<rparr>,
               \<lparr>row_index = 1, row_atom = ''H'', row_x = 15, row_y = 0, row_z = 0\<rparr>,
               \<lparr>row_index = 2, row_atom = ''H'', row_x = -14, row_y = 0, row_z = 0\<rparr>,
               \<lparr>row_index = 3, row_atom = ''H'', row_x = 32, row_y = 0, row_z = 0\<rparr>]"




text \<open>Four atoms that are not in one plane: (0,1,1), (0,1,0), (0,0,0) and (1,0,0).\<close>

definition twisted_frame :: "xyz_row list" where
  "twisted_frame = [\<lparr>row_index = 0, row_atom = ''H'', row_x = 0, row_y = 1, row_z = 1\<rparr>,
                    \<lparr>row_index = 1, row_atom = ''H'', row_x = 0, row_y = 1, row_z = 0\<rparr>,
                    \<lparr>row_index = 2, row_atom = ''H'', row_x = 0, row_y = 0, row_z = 0\<rparr>,
                    \<lparr>row_index = 3, row_atom = ''H'', row_x = 1, row_y = 0, row_z = 0\<rparr>]"

section \<open>Auxiliary facts\<close>

lemma comprehension_Inr:
  "comprehension f xs = Inr ys \<Longrightarrow> length ys = length xs \<and> (\<forall>i<length xs. f (xs ! i) = Inr (ys ! i))"
proof (induction xs arbitrary: ys)
  case Nil
  then show ?case by simp
next
  case (Cons x xs)
  from Cons.prems obtain y zs where y: "f x = Inr y" and zs: "comprehension f xs = Inr zs"
    and ys: "ys = y # zs"
    by (auto split: sum.splits)
  from Cons.IH [OF zs] have "length zs = length xs" and nth: "\<forall>i<length xs. f (xs ! i) = Inr (zs ! i)"
    by simp_all
  then show ?case using y ys by (auto simp: nth_Cons split: nat.splits)
qed

lemma comprehension_total:
  "(\<forall>x \<in> set xs. \<exists>y. f x = Inr y) \<Longrightarrow> \<exists>ys. comprehension f xs = Inr ys"
  by (induction xs) auto

lemma loc_row_Inr: "loc_row frame k = Inr r \<Longrightarrow> r \<in> set frame \<and> row_index r = k"
  by (auto simp: loc_row_def find_Some_iff split: option.splits)

lemma loc_row_total: "k \<in> set (frame_index frame) \<Longrightarrow> \<exists>r. loc_row frame k = Inr r"
  by (auto simp: loc_row_def frame_index_def find_None_iff split: option.splits)

lemma loc_rows_Inr:
  assumes "loc_rows frame include = Inr rows"
  shows "length rows = length include"
    and "i < length include \<Longrightarrow> rows ! i \<in> set frame \<and> row_index (rows ! i) = include ! i"
proof -
  from comprehension_Inr [OF assms [unfolded loc_rows_def]]
  have len: "length rows = length include"
    and nth: "\<forall>i<length include. loc_row frame (include ! i) = Inr (rows ! i)" by simp_all
  show "length rows = length include" by (rule len)
  show "rows ! i \<in> set frame \<and> row_index (rows ! i) = include ! i" if "i < length include"
    using nth that loc_row_Inr by blast
qed

lemma loc_rows_index: "loc_rows frame include = Inr rows \<Longrightarrow> frame_index rows = include"
  unfolding frame_index_def
  by (rule nth_equalityI) (simp_all add: loc_rows_Inr)

lemma linalg_norm_vsub_commute: "linalg_norm (vsub u v) = linalg_norm (vsub v u)"
proof -
  obtain a b c where u: "u = (a, b, c)" by (cases u)
  obtain a' b' c' where v: "v = (a', b', c')" by (cases v)
  have "(a - a') * (a - a') = (a' - a) * (a' - a)" "(b - b') * (b - b') = (b' - b) * (b' - b)"
    "(c - c') * (c - c') = (c' - c) * (c' - c)" by algebra+
  then show ?thesis by (simp add: u v)
qed

lemma overlap_Inr:
  assumes "overlap xyz bond_size_dic include = Inr (ov, conv)"
  shows "\<exists>rows bsv. loc_rows xyz include = Inr rows \<and>
           comprehension (getitem bond_size_dic) include = Inr bsv \<and>
           to_frame conv = include \<and>
           ov = (\<lambda>i j. (bsv ! i + bsv ! j)
                   - linalg_norm (vsub (map row_location rows ! i) (map row_location rows ! j)))"
proof -
  from assms obtain bsv rows where bsv: "comprehension (getitem bond_size_dic) include = Inr bsv"
    and rows: "loc_rows xyz include = Inr rows"
    and ov: "ov = (\<lambda>i j. (bsv ! i + bsv ! j)
                   - linalg_norm (vsub (map row_location rows ! i) (map row_location rows ! j)))"
    and conv: "to_frame conv = frame_index rows"
    by (auto simp: overlap_def summed_bond_size_array_def give_distance_array_def Let_def
             split: sum.splits)
  then show ?thesis using loc_rows_index [OF rows] by auto
qed

lemma overlap_symmetric:
  assumes "overlap xyz bond_size_dic include = Inr (ov, conv)"
  shows "ov i j = ov j i"
proof -
  from overlap_Inr [OF assms] obtain rows bsv where
    "ov = (\<lambda>i j. (bsv ! i + bsv ! j)
                   - linalg_norm (vsub (map row_location rows ! i) (map row_location rows ! j)))"
    by blast
  then show ?thesis by (simp add: linalg_norm_vsub_commute add.commute)
qed

lemma fill_diagonal_symmetric: "symmetric_array a \<Longrightarrow> symmetric_array (fill_diagonal a v)"
  by (auto simp: symmetric_array_def fill_diagonal_def)

lemma cut_bonds_symmetric: "symmetric_array a \<Longrightarrow> symmetric_array (cut_bonds n tv index a)"
  by (auto simp: symmetric_array_def cut_bonds_def Let_def)

lemma fold_cut_bonds_symmetric:
  "symmetric_array a \<Longrightarrow> symmetric_array (fold (cut_bonds n tv) is a)"
  by (induction "is" arbitrary: a) (simp_all add: cut_bonds_symmetric)

lemma update_pairs_Inr:
  "update_pairs conv ps g = Inr g' \<Longrightarrow>
   g' A = map_option (\<lambda>s. s \<union> {conv ! b | a b. (a, b) \<in> set ps \<and> conv ! a = A}) (g A)"
proof (induction conv ps g rule: update_pairs.induct)
  case (1 conv bond_dic)
  then show ?case by (cases "g' A") auto
next
  case (2 conv a b rest bond_dic)
  from "2.prems" obtain s where s: "bond_dic (conv ! a) = Some s"
    and rest: "update_pairs conv rest (bond_dic(conv ! a \<mapsto> s \<union> {conv ! b})) = Inr g'"
    by (auto split: option.splits)
  from "2.IH" [OF s rest] show ?case using s
    by (cases "conv ! a = A"; cases "bond_dic A") auto
qed

lemma update_pairs_total:
  "(\<forall>(a, b) \<in> set ps. conv ! a \<in> dom g) \<Longrightarrow> \<exists>g'. update_pairs conv ps g = Inr g'"
proof (induction conv ps g rule: update_pairs.induct)
  case (1 conv bond_dic)
  then show ?case by simp
next
  case (2 conv a b rest bond_dic)
  then obtain s where s: "bond_dic (conv ! a) = Some s" by auto
  have "\<forall>(a', b') \<in> set rest. conv ! a' \<in> dom (bond_dic(conv ! a \<mapsto> s \<union> {conv ! b}))"
    using "2.prems" by auto
  from "2.IH" [OF s this] obtain g' where
    "update_pairs conv rest (bond_dic(conv ! a \<mapsto> s \<union> {conv ! b})) = Inr g'" ..
  then have "update_pairs conv ((a, b) # rest) bond_dic = Inr g'"
    by (simp only: update_pairs.simps s option.case)
  then show ?case by blast
qed

lemma set_nonzero2: "set (nonzero2 n bin) = {(i, j). i < n \<and> j < n \<and> bin i j}"
  by (auto simp: nonzero2_def)

lemma cut_oversaturated_symmetric:
  "symmetric_array a \<Longrightarrow> symmetric_array (cut_oversaturated n tv uv a)"
  by (simp add: cut_oversaturated_def fold_cut_bonds_symmetric)

lemma get_bonds_local_Inr:
  assumes "get_bonds_local xyz g vd bsd uv include = Inr g'"
  shows "\<exists>ov conv tv. overlap xyz bsd include = Inr (ov, conv) \<and>
           comprehension (getitem vd) include = Inr tv \<and>
           (\<forall>A. g' A = map_option (\<lambda>s. s \<union> {include ! j | i j. i < length include \<and> j < length include
                \<and> cut_oversaturated (length include) tv uv (fill_diagonal ov (-1)) i j > 0 \<and> include ! i = A}) (g A))"
proof -
  from assms obtain ov conv tv where ov: "overlap xyz bsd include = Inr (ov, conv)"
    and tv: "comprehension (getitem vd) include = Inr tv"
    and upd: "update_dic (length include) conv (cut_oversaturated (length include) tv uv (fill_diagonal ov (-1))) g = Inr g'"
    by (auto simp: get_bonds_local_def split: sum.splits)
  from overlap_Inr [OF ov] have conv: "to_frame conv = include" by blast
  have "g' A = map_option (\<lambda>s. s \<union> {include ! j | i j. i < length include \<and> j < length include
                \<and> cut_oversaturated (length include) tv uv (fill_diagonal ov (-1)) i j > 0 \<and> include ! i = A}) (g A)" for A
    using update_pairs_Inr [OF upd [unfolded update_dic_def], of A]
    by (simp add: conv set_nonzero2)
  with ov tv show ?thesis by blast
qed

lemma get_bonds_local_symmetric:
  assumes "get_bonds_local xyz g vd bsd uv include = Inr g'" and "symmetric_graph g"
  shows "symmetric_graph g'"
proof -
  from get_bonds_local_Inr [OF assms(1)] obtain ov conv tv
    where ov: "overlap xyz bsd include = Inr (ov, conv)"
      and g': "\<And>A. g' A = map_option (\<lambda>s. s \<union> {include ! j | i j. i < length include \<and> j < length include
                \<and> cut_oversaturated (length include) tv uv (fill_diagonal ov (-1)) i j > 0 \<and> include ! i = A}) (g A)"
    by blast
  have "symmetric_array ov" using overlap_symmetric [OF ov] by (simp add: symmetric_array_def)
  then have "symmetric_array (cut_oversaturated (length include) tv uv (fill_diagonal ov (-1)))"
    by (intro cut_oversaturated_symmetric fill_diagonal_symmetric)
  then have sym: "\<And>i j. cut_oversaturated (length include) tv uv (fill_diagonal ov (-1)) i j = cut_oversaturated (length include) tv uv (fill_diagonal ov (-1)) j i"
    unfolding symmetric_array_def by blast
  show ?thesis unfolding symmetric_graph_def
  proof (intro allI impI)
    fix A B s t
    assume A: "g' A = Some s" and B: "g' B = Some t"
    from A g' [of A] obtain s0 where s0: "g A = Some s0"
      and s: "s = s0 \<union> {include ! j | i j. i < length include \<and> j < length include
                \<and> cut_oversaturated (length include) tv uv (fill_diagonal ov (-1)) i j > 0 \<and> include ! i = A}" by auto
    from B g' [of B] obtain t0 where t0: "g B = Some t0"
      and t: "t = t0 \<union> {include ! j | i j. i < length include \<and> j < length include
                \<and> cut_oversaturated (length include) tv uv (fill_diagonal ov (-1)) i j > 0 \<and> include ! i = B}" by auto
    from assms(2) s0 t0 have old: "B \<in> s0 \<longleftrightarrow> A \<in> t0" unfolding symmetric_graph_def by blast
    have new: "(\<exists>i j. B = include ! j \<and> i < length include \<and> j < length include
                \<and> cut_oversaturated (length include) tv uv (fill_diagonal ov (-1)) i j > 0 \<and> include ! i = A)
           \<longleftrightarrow> (\<exists>i j. A = include ! j \<and> i < length include \<and> j < length include
                \<and> cut_oversaturated (length include) tv uv (fill_diagonal ov (-1)) i j > 0 \<and> include ! i = B)"
      using sym by metis
    show "B \<in> s \<longleftrightarrow> A \<in> t" unfolding s t using old new by auto
  qed
qed

lemma over_cuboids_symmetric:
  "over_cuboids xyz vd bsd uv cs g = Inr g' \<Longrightarrow> symmetric_graph g \<Longrightarrow> symmetric_graph g'"
proof (induction cs arbitrary: g)
  case Nil
  then show ?case by simp
next
  case (Cons c cs)
  obtain key small big where c: "c = (key, small, big)" by (cases c)
  from Cons.prems(1) obtain g1 where g1: "get_bonds_local xyz g vd bsd uv big = Inr g1"
    and rest: "over_cuboids xyz vd bsd uv cs g1 = Inr g'"
    by (auto simp: c split: sum.splits)
  from get_bonds_local_symmetric [OF g1 Cons.prems(2)] Cons.IH [OF rest] show ?case by blast
qed

lemma py_dict_replicate:
  "py_dict (zip ks (replicate (length ks) v)) k = (if k \<in> set ks then Some v else None)"
proof -
  have "map_of (rev (zip ks (replicate (length ks) v))) k = (if k \<in> set ks then Some v else None)"
  proof (cases "k \<in> set ks")
    case True
    then have "(k, v) \<in> set (rev (zip ks (replicate (length ks) v)))"
      by (auto simp: in_set_zip in_set_conv_nth)
    moreover have "\<And>w. (k, w) \<in> set (rev (zip ks (replicate (length ks) v))) \<Longrightarrow> w = v"
      by (auto simp: in_set_zip)
    ultimately show ?thesis using True
      by (metis map_of_SomeD weak_map_of_SomeI)
  next
    case False
    then have "k \<notin> fst ` set (rev (zip ks (replicate (length ks) v)))"
      by (auto dest: set_zip_leftD)
    then show ?thesis using False by (simp add: map_of_eq_None_iff)
  qed
  then show ?thesis by (simp add: py_dict_def)
qed

lemma preparation_bond_dic:
  assumes "preparation_of_variables props xyz mp = Inr (bd, vd, bsd)"
  shows "bd = (\<lambda>k. if k \<in> set (frame_index xyz) then Some {} else None)"
proof -
  have len: "length xyz = length (frame_index xyz)" by (simp add: frame_index_def)
  from assms have "bd = py_dict (zip (frame_index xyz) (replicate (length xyz) {}))"
    by (auto simp: preparation_of_variables_def Let_def split: sum.splits option.splits)
  then show ?thesis unfolding len py_dict_replicate by (intro ext) simp
qed

lemma complete_calculation_symmetric:
  assumes "complete_calculation props xyz mp mel de uv dv = Inr g"
  shows "symmetric_graph g"
proof -
  from assms obtain bd vd bsd where prep: "preparation_of_variables props xyz mp = Inr (bd, vd, bsd)"
    by (auto simp: complete_calculation_def split: sum.splits)
  have bd: "symmetric_graph bd" unfolding preparation_bond_dic [OF prep] symmetric_graph_def
    by (auto split: if_splits)
  show ?thesis
  proof (cases dv)
    case True
    with assms prep obtain cs where "over_cuboids xyz vd bsd uv cs bd = Inr g"
      by (auto simp: complete_calculation_def split: sum.splits)
    then show ?thesis using bd by (rule over_cuboids_symmetric)
  next
    case False
    with assms prep have "get_bonds_local xyz bd vd bsd uv (frame_index xyz) = Inr g"
      by (auto simp: complete_calculation_def split: sum.splits)
    then show ?thesis using bd by (rule get_bonds_local_symmetric)
  qed
qed

lemma dom_py_dict_zip:
  "length ks = length vs \<Longrightarrow> dom (py_dict (zip ks vs)) = set ks"
  by (simp add: py_dict_def dom_map_of_conv_image_fst flip: set_map)

lemma preparation_total:
  assumes "\<forall>r \<in> set xyz. row_atom r \<in> dom props"
  shows "\<exists>bd vd bsd. preparation_of_variables props xyz mp = Inr (bd, vd, bsd)"
proof -
  have "\<forall>r \<in> set xyz. \<exists>y. getitem props (row_atom r) = Inr y"
    using assms by (auto simp: getitem_def)
  then obtain ps where "comprehension (\<lambda>r. getitem props (row_atom r)) xyz = Inr ps"
    using comprehension_total [of xyz "\<lambda>r. getitem props (row_atom r)"] by blast
  then show ?thesis
    by (cases mp) (simp_all add: preparation_of_variables_def Let_def)
qed

lemma preparation_Inr:
  assumes "preparation_of_variables props xyz mp = Inr (bd, vd, bsd)"
  shows "set (frame_index xyz) \<subseteq> dom vd" and "set (frame_index xyz) \<subseteq> dom bsd"
    and "dom bd = set (frame_index xyz)"
proof -
  from assms obtain ps where ps: "comprehension (\<lambda>r. getitem props (row_atom r)) xyz = Inr ps"
    by (auto simp: preparation_of_variables_def Let_def split: sum.splits)
  from comprehension_Inr [OF ps] have len: "length ps = length xyz" by simp
  have d1: "dom (py_dict (zip (frame_index xyz) (map valency ps))) = set (frame_index xyz)"
    by (rule dom_py_dict_zip) (simp add: len frame_index_def)
  have d2: "dom (py_dict (zip (frame_index xyz) (map bond_size ps))) = set (frame_index xyz)"
    by (rule dom_py_dict_zip) (simp add: len frame_index_def)
  from assms ps have vd: "vd = py_dict (zip (frame_index xyz) (map valency ps)) \<or>
      (\<exists>m. vd = py_dict (zip (frame_index xyz) (map valency ps)) ++ m)"
    and bsd: "bsd = py_dict (zip (frame_index xyz) (map bond_size ps)) \<or>
      (\<exists>m. bsd = py_dict (zip (frame_index xyz) (map bond_size ps)) ++ m)"
    by (auto simp: preparation_of_variables_def Let_def split: option.splits)
  have sub: "A \<subseteq> dom (m ++ n)" if "A \<subseteq> dom m" for A :: "int set" and m n :: "int \<rightharpoonup> 'z"
    using that unfolding dom_map_add by blast
  show "set (frame_index xyz) \<subseteq> dom vd" using vd d1 sub [of "set (frame_index xyz)"] by (metis order_refl)
  show "set (frame_index xyz) \<subseteq> dom bsd" using bsd d2 sub [of "set (frame_index xyz)"] by (metis order_refl)
  show "dom bd = set (frame_index xyz)" unfolding preparation_bond_dic [OF assms]
    by (auto split: if_splits)
qed

lemma getitem_total: "k \<in> dom d \<Longrightarrow> \<exists>v. getitem d k = Inr v"
  by (auto simp: getitem_def)

lemma get_bonds_local_total:
  assumes "set include \<subseteq> set (frame_index xyz)" "set include \<subseteq> dom bsd"
    "set include \<subseteq> dom vd" "set include \<subseteq> dom g"
  shows "\<exists>g'. get_bonds_local xyz g vd bsd uv include = Inr g'"
proof -
  have "\<forall>k \<in> set include. \<exists>v. getitem bsd k = Inr v"
    using assms(2) by (auto intro!: getitem_total)
  then have "\<exists>ys. comprehension (getitem bsd) include = Inr ys" by (rule comprehension_total)
  then obtain bsv where bsv: "comprehension (getitem bsd) include = Inr bsv" ..
  have "\<forall>k \<in> set include. \<exists>v. loc_row xyz k = Inr v"
    using assms(1) by (auto intro!: loc_row_total)
  then have "\<exists>ys. comprehension (loc_row xyz) include = Inr ys" by (rule comprehension_total)
  then obtain rows where rows: "comprehension (loc_row xyz) include = Inr rows" ..
  have "\<forall>k \<in> set include. \<exists>v. getitem vd k = Inr v"
    using assms(3) by (auto intro!: getitem_total)
  then have "\<exists>ys. comprehension (getitem vd) include = Inr ys" by (rule comprehension_total)
  then obtain tv where tv: "comprehension (getitem vd) include = Inr tv" ..
  have "\<exists>ov conv. overlap xyz bsd include = Inr (ov, conv)"
    by (simp add: overlap_def summed_bond_size_array_def give_distance_array_def loc_rows_def
          Let_def bsv rows)
  then obtain ov conv where ov: "overlap xyz bsd include = Inr (ov, conv)" by blast
  from overlap_Inr [OF ov] have conv: "to_frame conv = include" by blast
  have "\<forall>(a, b) \<in> set (nonzero2 (length include)
          (\<lambda>i j. cut_oversaturated (length include) tv uv (fill_diagonal ov (-1)) i j > 0)). include ! a \<in> dom g"
  proof -
    have "include ! a \<in> dom g" if "a < length include" for a
      using assms(4) that nth_mem by blast
    then show ?thesis by (simp add: set_nonzero2 split_beta)
  qed
  from update_pairs_total [OF this] obtain g' where
    "update_pairs include (nonzero2 (length include)
          (\<lambda>i j. cut_oversaturated (length include) tv uv (fill_diagonal ov (-1)) i j > 0)) g = Inr g'" ..
  then have "get_bonds_local xyz g vd bsd uv include = Inr g'"
    by (simp add: get_bonds_local_def ov tv update_dic_def conv)
  then show ?thesis by blast
qed

lemma get_bonds_local_dom:
  assumes "get_bonds_local xyz g vd bsd uv include = Inr g'"
  shows "dom g' = dom g"
proof -
  from get_bonds_local_Inr [OF assms] obtain ov conv tv where
    "\<And>A. g' A = map_option (\<lambda>s. s \<union> {include ! j | i j. i < length include \<and> j < length include
                \<and> cut_oversaturated (length include) tv uv (fill_diagonal ov (-1)) i j > 0 \<and> include ! i = A}) (g A)"
    by blast
  then have "\<And>A. g' A = None \<longleftrightarrow> g A = None" by simp
  then show ?thesis by (auto simp: dom_def)
qed

lemma over_cuboids_total:
  assumes "\<forall>(key, small, big) \<in> set cs. set big \<subseteq> set (frame_index xyz)"
    "set (frame_index xyz) \<subseteq> dom bsd" "set (frame_index xyz) \<subseteq> dom vd"
    "set (frame_index xyz) \<subseteq> dom g"
  shows "\<exists>g'. over_cuboids xyz vd bsd uv cs g = Inr g'"
  using assms
proof (induction cs arbitrary: g)
  case Nil
  then show ?case by simp
next
  case (Cons c cs)
  obtain key small big where c: "c = (key, small, big)" by (cases c)
  with Cons.prems have big: "set big \<subseteq> set (frame_index xyz)" by simp
  obtain g1 where g1: "get_bonds_local xyz g vd bsd uv big = Inr g1"
    using get_bonds_local_total [of big xyz bsd vd g uv] big Cons.prems by blast
  have "set (frame_index xyz) \<subseteq> dom g1" using get_bonds_local_dom [OF g1] Cons.prems(4) by simp
  from Cons.IH [OF _ Cons.prems(2,3) this] Cons.prems(1) obtain g' where
    "over_cuboids xyz vd bsd uv cs g1 = Inr g'" by auto
  then show ?case using g1 by (simp add: c)
qed

lemma set_sorted_series: "set (sorted_series xyz ax) = set xyz"
  by (simp add: sorted_series_def)

lemma sorted_arrays_bounds:
  assumes "r \<in> set xyz"
  shows "hd (sorted_arrays xyz ax) \<le> coord ax r" and "coord ax r \<le> last (sorted_arrays xyz ax)"
proof -
  let ?xs = "sorted_arrays xyz ax"
  have srt: "sorted ?xs" by (simp add: sorted_arrays_def sorted_series_def)
  have mem: "coord ax r \<in> set ?xs" using assms by (simp add: sorted_arrays_def set_sorted_series)
  then obtain i where i: "i < length ?xs" "?xs ! i = coord ax r" by (auto simp: in_set_conv_nth)
  then have ne: "?xs \<noteq> []" by auto
  have "?xs ! 0 \<le> ?xs ! i" using srt i(1) by (simp add: sorted_nth_mono)
  then show "hd ?xs \<le> coord ax r" using ne i(2) by (simp add: hd_conv_nth)
  have "?xs ! i \<le> ?xs ! (length ?xs - 1)" using srt i(1) ne by (intro sorted_nth_mono) auto
  then show "coord ax r \<le> last ?xs" using ne i(2) by (simp add: last_conv_nth)
qed

lemma minimum_less: "r \<in> set xyz \<Longrightarrow> minimum xyz ax < coord ax r"
  using sorted_arrays_bounds(1) [of r xyz ax] by (simp add: minimum_def)

lemma maximum_greater: "r \<in> set xyz \<Longrightarrow> coord ax r < maximum xyz ax"
  using sorted_arrays_bounds(2) [of r xyz ax] by (simp add: maximum_def)

lemma extent_pos: "xyz \<noteq> [] \<Longrightarrow> 0 < extent xyz ax"
proof -
  assume "xyz \<noteq> []"
  then obtain r where "r \<in> set xyz" by (cases xyz) auto
  from minimum_less [OF this, of ax] maximum_greater [OF this, of ax]
  show ?thesis by (simp add: extent_def)
qed

lemma steps_pos: "xyz \<noteq> [] \<Longrightarrow> 0 < mel \<Longrightarrow> 1 \<le> steps xyz mel ax"
proof -
  assume "xyz \<noteq> []" "0 < mel"
  then have "0 < extent xyz ax / mel" using extent_pos by simp
  then have "0 < \<lceil>extent xyz ax / mel\<rceil>" by simp
  then show ?thesis by (simp add: steps_def)
qed

lemma interval_indices_iff:
  "k \<in> interval_indices xyz ax lo hi \<longleftrightarrow>
   (\<exists>r \<in> set xyz. row_index r = k \<and> lo \<le> coord ax r \<and> coord ax r < hi)"
proof -
  let ?s = "sorted_series xyz ax"
  have "k \<in> interval_indices xyz ax lo hi \<longleftrightarrow>
     (\<exists>i < length ?s. lo \<le> coord ax (?s ! i) \<and> coord ax (?s ! i) < hi \<and> row_index (?s ! i) = k)"
    by (auto simp: interval_indices_def Let_def sorted_arrays_def convert_def)
  also have "\<dots> \<longleftrightarrow> (\<exists>r \<in> set ?s. row_index r = k \<and> lo \<le> coord ax r \<and> coord ax r < hi)"
    by (metis in_set_conv_nth)
  finally show ?thesis by (simp add: set_sorted_series)
qed

lemma interval_indices_subset: "interval_indices xyz ax lo hi \<subseteq> set (frame_index xyz)"
  by (auto simp: interval_indices_iff frame_index_def)

lemma finite_interval_indices: "finite (interval_indices xyz ax lo hi)"
  by (rule finite_subset [OF interval_indices_subset]) simp

lemma small_interval:
  "origin1D xyz mel ax c - edge_small xyz mel ax / 2 = minimum xyz ax + real c * cuboid_diagonal xyz mel ax"
  "origin1D xyz mel ax c + edge_small xyz mel ax / 2 = minimum xyz ax + (real c + 1) * cuboid_diagonal xyz mel ax"
  by (cases ax; simp add: origin_array_def edge_small_def algebra_simps)+

lemma index_small_iff:
  "k \<in> index_small xyz mel ax c \<longleftrightarrow>
     (\<exists>r \<in> set xyz. row_index r = k \<and>
        minimum xyz ax + real c * cuboid_diagonal xyz mel ax \<le> coord ax r \<and>
        coord ax r < minimum xyz ax + (real c + 1) * cuboid_diagonal xyz mel ax)"
  by (simp add: index_small_def interval_indices_iff small_interval)

lemma index_big_iff:
  "k \<in> index_big xyz mel de ax c \<longleftrightarrow>
     (\<exists>r \<in> set xyz. row_index r = k \<and>
        minimum xyz ax + real c * cuboid_diagonal xyz mel ax - de / 2 \<le> coord ax r \<and>
        coord ax r < minimum xyz ax + (real c + 1) * cuboid_diagonal xyz mel ax + de / 2)"
proof -
  have "origin1D xyz mel ax c - edge_big xyz mel de ax / 2
        = minimum xyz ax + real c * cuboid_diagonal xyz mel ax - de / 2"
    "origin1D xyz mel ax c + edge_big xyz mel de ax / 2
        = minimum xyz ax + (real c + 1) * cuboid_diagonal xyz mel ax + de / 2"
    using small_interval [of xyz mel ax c] by (simp_all add: edge_big_def add_divide_distrib)
  then show ?thesis by (simp add: index_big_def interval_indices_iff)
qed





lemma all_axis: "(\<forall>ax. P ax) \<longleftrightarrow> P axis_x \<and> P axis_y \<and> P axis_z"
  by (metis axis.exhaust)


lemma cube_big:
  "set (snd (snd (cube xyz mel de p))) = {k. \<forall>ax. k \<in> index_big xyz mel de ax (counter_of p ax)}"
  by (auto simp: cube_def all_axis index_big_def finite_interval_indices)


lemma cube_big_subset_index: "set (snd (snd (cube xyz mel de p))) \<subseteq> set (frame_index xyz)"
  unfolding cube_big using interval_indices_subset [of xyz axis_x] by (auto simp: index_big_def)





lemma divide_et_impera_cases:
  assumes "xyz \<noteq> []" "0 < mel"
  shows "divide_et_impera xyz mel de =
     (if (steps xyz mel axis_x, steps xyz mel axis_y, steps xyz mel axis_z) = (1, 1, 1)
      then Inr [((0, 0, 0), frame_index xyz, frame_index xyz)]
      else Inr (map (cube xyz mel de)
             (List.product [0..<nat (steps xyz mel axis_x)]
                  (List.product [0..<nat (steps xyz mel axis_y)] [0..<nat (steps xyz mel axis_z)]))))"
proof -
  have "1 \<le> steps xyz mel axis_x" "1 \<le> steps xyz mel axis_y" "1 \<le> steps xyz mel axis_z"
    using steps_pos [OF assms] by simp_all
  then show ?thesis using assms by (simp add: divide_et_impera_def Let_def)
qed

lemma complete_calculation_total:
  assumes "\<forall>r \<in> set xyz. row_atom r \<in> dom props" and "dv \<longrightarrow> xyz \<noteq> [] \<and> 0 < mel"
  shows "\<exists>g. complete_calculation props xyz mp mel de uv dv = Inr g"
proof -
  from preparation_total [OF assms(1)] obtain bd vd bsd where
    prep: "preparation_of_variables props xyz mp = Inr (bd, vd, bsd)" by blast
  note doms = preparation_Inr [OF prep]
  have bd: "set (frame_index xyz) \<subseteq> dom bd" using doms(3) by simp
  show ?thesis
  proof (cases dv)
    case True
    with assms(2) have ne: "xyz \<noteq> []" "0 < mel" by simp_all
    obtain cells where cells: "divide_et_impera xyz mel de = Inr cells"
      and big: "\<forall>(key, small, big) \<in> set cells. set big \<subseteq> set (frame_index xyz)"
    proof (cases "(steps xyz mel axis_x, steps xyz mel axis_y, steps xyz mel axis_z) = (1, 1, 1)")
      case True
      then have "divide_et_impera xyz mel de = Inr [((0, 0, 0), frame_index xyz, frame_index xyz)]"
        unfolding divide_et_impera_cases [OF ne] by simp
      then show ?thesis using that by simp
    next
      case False
      then have "divide_et_impera xyz mel de = Inr (map (cube xyz mel de)
             (List.product [0..<nat (steps xyz mel axis_x)]
                  (List.product [0..<nat (steps xyz mel axis_y)] [0..<nat (steps xyz mel axis_z)])))"
        unfolding divide_et_impera_cases [OF ne] by (simp only: if_False)
      moreover have "set (snd (snd (cube xyz mel de p))) \<subseteq> set (frame_index xyz)" for p
        by (rule cube_big_subset_index)
      ultimately show ?thesis using that [of "map (cube xyz mel de)
             (List.product [0..<nat (steps xyz mel axis_x)]
                  (List.product [0..<nat (steps xyz mel axis_y)] [0..<nat (steps xyz mel axis_z)]))"]
        by (auto simp: cube_def)
    qed
    from over_cuboids_total [OF big doms(2) doms(1) bd, of uv] obtain g where
      "over_cuboids xyz vd bsd uv cells bd = Inr g" by blast
    then show ?thesis using True prep cells by (simp add: complete_calculation_def)
  next
    case False
    from get_bonds_local_total [OF order_refl doms(2) doms(1) bd, of uv] obtain g where
      "get_bonds_local xyz bd vd bsd uv (frame_index xyz) = Inr g" by blast
    then show ?thesis using False prep by (simp add: complete_calculation_def)
  qed
qed

























section \<open>The example molecules evaluated\<close>

lemma upt_0_4: "[0..<4] = [0, Suc 0, 2, 3]"
  by (simp add: upt_rec numeral_eq_Suc)

lemmas bonds_eval = complete_calculation_def preparation_of_variables_def hydrogen_table_def
  getitem_def py_dict_def frame_index_def get_bonds_local_def overlap_def
  summed_bond_size_array_def give_distance_array_def loc_rows_def loc_row_def row_location_def
  Let_def update_dic_def nonzero2_def fill_diagonal_def cut_oversaturated_def
  indices_of_oversaturated_atoms_def actual_valency_def cut_bonds_def sort_values_descending_def
  slice_from_def


lemma h4_valency:
  "complete_calculation hydrogen_table h4_frame None 25 6 True False
     = Inr [0 \<mapsto> {2}, 1 \<mapsto> {3}, 2 \<mapsto> {0}, 3 \<mapsto> {1}]"
  by (simp add: bonds_eval h4_frame_def upt_0_4)



lemma h2_extent:
  "extent h2_frame axis_x = 751 / 50" "extent h2_frame axis_y = 1 / 50"
  "extent h2_frame axis_z = 1 / 50"
  by (simp_all add: extent_def maximum_def minimum_def sorted_arrays_def sorted_series_def
      h2_frame_def)

lemma h2_steps_25: "steps h2_frame 25 ax = 1"
proof -
  have "\<lceil>751 / 50 / 25 :: real\<rceil> = 1" "\<lceil>1 / 50 / 25 :: real\<rceil> = 1"
    by (rule ceiling_unique; simp)+
  then show ?thesis by (cases ax) (simp_all add: steps_def h2_extent)
qed


lemma h2_nonempty: "h2_frame \<noteq> []"
  by (simp add: h2_frame_def)

section \<open>The bond graph\<close>

text \<open>
  C1. Whatever the parameters, the adjacency that \<open>get_bonds\<close> returns is symmetric:
  for all keys \<open>A\<close> and \<open>B\<close> of the adjacency, \<open>B\<close> is in the set of \<open>A\<close> exactly when
  \<open>A\<close> is in the set of \<open>B\<close>. With \<open>use_lookup\<close> the stored dictionary is returned
  as it is, so the statement is an invariant: a stored dictionary that is symmetric stays
  so, and whatever is stored by the call is symmetric.
\<close>

theorem get_bonds_symmetric:
  assumes "get_bonds props self mp mel de uv ul sl dv = Inr (g, self')"
    and "\<forall>c. bond_dic_attr self = Some c \<longrightarrow> symmetric_graph c"
  shows "(\<forall>A B s t. g A = Some s \<longrightarrow> g B = Some t \<longrightarrow> (B \<in> s \<longleftrightarrow> A \<in> t)) \<and>
         (\<forall>c. bond_dic_attr self' = Some c \<longrightarrow> symmetric_graph c)"
proof -
  have calc: "symmetric_graph g \<and> (\<forall>c. bond_dic_attr self' = Some c \<longrightarrow> symmetric_graph c)"
    if "(case complete_calculation props (xyz_frame self) mp mel de uv dv of Inl e \<Rightarrow> Inl e
         | Inr bd \<Rightarrow> Inr (bd, if sl then self\<lparr>bond_dic_attr := Some bd\<rparr> else self)) = Inr (g, self')"
  proof -
    from that have g: "complete_calculation props (xyz_frame self) mp mel de uv dv = Inr g"
      and self': "self' = (if sl then self\<lparr>bond_dic_attr := Some g\<rparr> else self)"
      by (auto split: sum.splits)
    from complete_calculation_symmetric [OF g] assms(2) self' show ?thesis by auto
  qed
  have "symmetric_graph g \<and> (\<forall>c. bond_dic_attr self' = Some c \<longrightarrow> symmetric_graph c)"
  proof (cases "bond_dic_attr self")
    case None
    from assms(1) show ?thesis unfolding get_bonds_def Let_def None
      by (intro calc) (simp split: if_splits)
  next
    case (Some c)
    show ?thesis
    proof (cases ul)
      case True
      with Some assms(1) have "g = c" "self' = self" by (simp_all add: get_bonds_def)
      with Some assms(2) show ?thesis by simp
    next
      case False
      with assms(1) show ?thesis by (intro calc) (simp add: get_bonds_def Let_def)
    qed
  qed
  then show ?thesis unfolding symmetric_graph_def by blast
qed

theorem get_bonds_symmetric_witness:
  "get_bonds hydrogen_table \<lparr>xyz_frame = h4_frame, bond_dic_attr = None\<rparr> None 25 6
      True False True False
     = Inr ([0 \<mapsto> {2}, 1 \<mapsto> {3}, 2 \<mapsto> {0}, 3 \<mapsto> {1}], \<lparr>xyz_frame = h4_frame, bond_dic_attr = Some ([0 \<mapsto> {2}, 1 \<mapsto> {3}, 2 \<mapsto> {0}, 3 \<mapsto> {1}])\<rparr>) \<and>
   symmetric_graph ([0 \<mapsto> {2}, 1 \<mapsto> {3}, 2 \<mapsto> {0}, 3 \<mapsto> {1}])"
proof -
  let ?self = "\<lparr>xyz_frame = h4_frame, bond_dic_attr = None\<rparr>"
  have run: "get_bonds hydrogen_table ?self None 25 6 True False True False
     = Inr ([0 \<mapsto> {2}, 1 \<mapsto> {3}, 2 \<mapsto> {0}, 3 \<mapsto> {1}], \<lparr>xyz_frame = h4_frame, bond_dic_attr = Some ([0 \<mapsto> {2}, 1 \<mapsto> {3}, 2 \<mapsto> {0}, 3 \<mapsto> {1}])\<rparr>)"
    by (simp add: get_bonds_def h4_valency)
  have "\<forall>c. bond_dic_attr ?self = Some c \<longrightarrow> symmetric_graph c" by simp
  from get_bonds_symmetric [OF run this] have "symmetric_graph ([0 \<mapsto> {2}, 1 \<mapsto> {3}, 2 \<mapsto> {0}, 3 \<mapsto> {1}])"
    unfolding symmetric_graph_def by blast
  with run show ?thesis by blast
qed






section \<open>The cuboids\<close>





text \<open>
  The other parameter: a negative \<open>difference_edge\<close> makes the big interval narrower
  than the small one. One atom at the origin, \<open>maximum_edge_length = 1/100\<close> and
  \<open>difference_edge = -1\<close>: the cuboid \<open>(1, 1, 1)\<close> has the atom in its small set and
  nothing in its big set.
\<close>

lemma h1_extent: "extent h1_frame ax = 1 / 50" and h1_minimum: "minimum h1_frame ax = - (1 / 100)"
  by (cases ax; simp add: extent_def maximum_def minimum_def sorted_arrays_def
      sorted_series_def h1_frame_def)+

lemma h1_steps: "steps h1_frame (1 / 100) ax = 2"
  by (simp add: steps_def h1_extent)

lemma h1_cuboid_diagonal: "cuboid_diagonal h1_frame (1 / 100) ax = 1 / 100"
  by (simp add: cuboid_diagonal_def h1_steps h1_extent)

lemma h1_index_small: "index_small h1_frame (1 / 100) ax (Suc 0) = {0}"
proof -
  have "k \<in> index_small h1_frame (1 / 100) ax (Suc 0) \<longleftrightarrow>
      (\<exists>r \<in> set h1_frame. row_index r = k \<and> 0 \<le> coord ax r \<and> coord ax r < 1 / 100)" for k
    by (simp add: index_small_iff h1_cuboid_diagonal h1_minimum)
  then show ?thesis by (cases ax) (auto simp: h1_frame_def)
qed

lemma h1_index_big: "index_big h1_frame (1 / 100) (- 1) ax (Suc 0) = {}"
proof -
  have "k \<in> index_big h1_frame (1 / 100) (- 1) ax (Suc 0) \<longleftrightarrow>
      (\<exists>r \<in> set h1_frame. row_index r = k \<and> 1 / 2 \<le> coord ax r \<and> coord ax r < - (49 / 100))" for k
    by (simp add: index_big_iff h1_cuboid_diagonal h1_minimum)
  then show ?thesis by (cases ax) (auto simp: h1_frame_def)
qed

lemma divide_et_impera_negative_difference_edge:
  "\<exists>cells. divide_et_impera h1_frame (1 / 100) (- 1) = Inr cells \<and> \<not> cells_partition h1_frame cells"
proof -
  let ?cells = "map (cube h1_frame (1 / 100) (- 1))
      (List.product [0..<2] (List.product [0..<2] [0..<2]))"
  have ne: "h1_frame \<noteq> []" by (simp add: h1_frame_def)
  have res: "divide_et_impera h1_frame (1 / 100) (- 1) = Inr ?cells"
    by (simp add: divide_et_impera_def h1_steps ne)
  have c: "cube h1_frame (1 / 100) (- 1) (1, 1, 1) = ((1, 1, 1), [0], [])"
    by (simp add: cube_def h1_index_small h1_index_big)
  have "(1, 1, 1) \<in> set (List.product [0..<2] (List.product [0..<2] [0..<(2::nat)]))" by simp
  then have "cube h1_frame (1 / 100) (- 1) (1, 1, 1) \<in> set ?cells"
    unfolding set_map by (rule imageI)
  then have mem: "((1, 1, 1), [0], []) \<in> set ?cells" unfolding c .
  have "\<not> (\<forall>c \<in> set ?cells. set (fst (snd c)) \<subseteq> set (snd (snd c)))"
  proof
    assume "\<forall>c \<in> set ?cells. set (fst (snd c)) \<subseteq> set (snd (snd c))"
    from bspec [OF this mem] show False by simp
  qed
  then have "\<not> cells_partition h1_frame ?cells" unfolding cells_partition_def by (elim contrapos_nn) (elim conjE)
  with res show ?thesis by blast
qed

text \<open>
  C5. When every axis needs one step, \<open>_divide_et_impera\<close> returns the one cuboid
  \<open>(0, 0, 0)\<close> whose small and big sets are the frame's index, and \<open>get_bonds\<close> with the
  partitioning on returns what it returns with the partitioning off, the other
  parameters being the same.
\<close>

theorem single_cuboid_same_bonds:
  assumes "xyz_frame self \<noteq> []"
    and "steps (xyz_frame self) mel axis_x = 1"
    and "steps (xyz_frame self) mel axis_y = 1"
    and "steps (xyz_frame self) mel axis_z = 1"
  shows "divide_et_impera (xyz_frame self) mel de
           = Inr [((0, 0, 0), frame_index (xyz_frame self), frame_index (xyz_frame self))] \<and>
         get_bonds props self mp mel de uv ul sl True = get_bonds props self mp mel de uv ul sl False"
proof -
  let ?xyz = "xyz_frame self"
  have mel: "mel \<noteq> 0" using assms(2) by (auto simp: steps_def)
  have cells: "divide_et_impera ?xyz mel de = Inr [((0, 0, 0), frame_index ?xyz, frame_index ?xyz)]"
    using assms mel by (simp add: divide_et_impera_def)
  have one: "over_cuboids ?xyz vd bsd uv [((0, 0, 0), frame_index ?xyz, frame_index ?xyz)] bd
      = get_bonds_local ?xyz bd vd bsd uv (frame_index ?xyz)" for vd bsd bd
    by (cases "get_bonds_local ?xyz bd vd bsd uv (frame_index ?xyz)") simp_all
  have "complete_calculation props ?xyz mp mel de uv True
      = complete_calculation props ?xyz mp mel de uv False"
  proof (cases "preparation_of_variables props ?xyz mp")
    case (Inl e)
    then show ?thesis by (simp add: complete_calculation_def)
  next
    case (Inr r)
    obtain bd vd bsd where r: "r = (bd, vd, bsd)" by (cases r)
    have "complete_calculation props ?xyz mp mel de uv True
      = over_cuboids ?xyz vd bsd uv [((0, 0, 0), frame_index ?xyz, frame_index ?xyz)] bd"
      unfolding complete_calculation_def Inr r cells by simp
    also have "\<dots> = complete_calculation props ?xyz mp mel de uv False"
      unfolding one by (simp add: complete_calculation_def Inr r)
    finally show ?thesis .
  qed
  then have "get_bonds props self mp mel de uv ul sl True = get_bonds props self mp mel de uv ul sl False"
    by (simp add: get_bonds_def)
  with cells show ?thesis by blast
qed

theorem single_cuboid_same_bonds_witness:
  "h2_frame \<noteq> [] \<and> steps h2_frame 25 axis_x = 1 \<and> steps h2_frame 25 axis_y = 1 \<and>
   steps h2_frame 25 axis_z = 1 \<and>
   divide_et_impera h2_frame 25 6 = Inr [((0, 0, 0), frame_index h2_frame, frame_index h2_frame)] \<and>
   get_bonds hydrogen_table \<lparr>xyz_frame = h2_frame, bond_dic_attr = None\<rparr> None 25 6 True False True True
     = get_bonds hydrogen_table \<lparr>xyz_frame = h2_frame, bond_dic_attr = None\<rparr> None 25 6 True False True False"
  using single_cuboid_same_bonds [of "\<lparr>xyz_frame = h2_frame, bond_dic_attr = None\<rparr>" 25 6
      hydrogen_table None True False True] h2_nonempty h2_steps_25
  by simp

section \<open>Connectivity\<close>

lemma h2_bonds_divided:
  "complete_calculation hydrogen_table h2_frame None 25 6 False True = Inr [0 \<mapsto> {1}, 1 \<mapsto> {0}]"
proof -
  have cells: "divide_et_impera h2_frame 25 6 = Inr [((0, 0, 0), frame_index h2_frame, frame_index h2_frame)]"
    by (simp add: divide_et_impera_def h2_steps_25 h2_nonempty)
  have upt2: "[0..<2] = [0, Suc 0]" by (simp add: upt_rec)
  show ?thesis
    unfolding complete_calculation_def cells
    by (simp add: bonds_eval h2_frame_def upt2 del: complete_calculation_def)
qed

lemma h2_get_bonds:
  "get_bonds hydrogen_table \<lparr>xyz_frame = h2_frame, bond_dic_attr = None\<rparr> None 25 6 False True True True
    = Inr ([0 \<mapsto> {1}, 1 \<mapsto> {0}], \<lparr>xyz_frame = h2_frame, bond_dic_attr = Some [0 \<mapsto> {1}, 1 \<mapsto> {0}]\<rparr>)"
  by (simp add: get_bonds_def h2_bonds_divided)

lemma h2_connected_without_exclude:
  "connected_to_static 0 [0 \<mapsto> {1}, 1 \<mapsto> {0}] None = Some (Inr {0, 1})"
  by (simp add: connected_to_static_def connected_loop.simps insert_commute)

text \<open>
  C6 (the code departs from the claim). Two bonded hydrogen atoms 0 and 1, seed 0 and
  \<^verbatim>\<open>exclude=[1]\<close>: the public \<open>connected_to\<close> returns the frame of both atoms, since
  it calls \<^verbatim>\<open>_connected_to\<close> with \<^verbatim>\<open>exclude=None\<close>, while
  \<^verbatim>\<open>_connected_to\<close> given the exclusion list returns atom 0 alone, which is what the
  docstring (``Indices in this list are omitted'') and the claim ask for.
\<close>

theorem connected_to_ignores_exclude:
  "connected_to hydrogen_table \<lparr>xyz_frame = h2_frame, bond_dic_attr = None\<rparr> 0 (Some [1])
     = Some (Inr (\<lparr>xyz_frame = h2_frame, bond_dic_attr = None\<rparr>,
                  \<lparr>xyz_frame = h2_frame, bond_dic_attr = Some [0 \<mapsto> {1}, 1 \<mapsto> {0}]\<rparr>)) \<and>
   frame_index h2_frame = [0, 1] \<and>
   connected_to_static 0 [0 \<mapsto> {1}, 1 \<mapsto> {0}] (Some [1]) = Some (Inr {0})"
proof -
  have "connected_to hydrogen_table \<lparr>xyz_frame = h2_frame, bond_dic_attr = None\<rparr> 0 (Some [1])
     = Some (Inr (\<lparr>xyz_frame = h2_frame, bond_dic_attr = None\<rparr>,
                  \<lparr>xyz_frame = h2_frame, bond_dic_attr = Some [0 \<mapsto> {1}, 1 \<mapsto> {0}]\<rparr>))"
    by (simp add: connected_to_def h2_get_bonds h2_connected_without_exclude insert_commute)
       (simp add: loc_rows_def loc_row_def h2_frame_def)
  moreover have "frame_index h2_frame = [0, 1]" by (simp add: frame_index_def h2_frame_def)
  moreover have "connected_to_static 0 [0 \<mapsto> {1}, 1 \<mapsto> {0}] (Some [1]) = Some (Inr {0})"
    by (simp add: connected_to_static_def connected_loop.simps)
  ultimately show ?thesis by blast
qed

section \<open>The checks of \<^verbatim>\<open>to_zmat\<close>\<close>







section \<open>The dihedral angle\<close>

lemma linalg_norm_nonneg: "0 \<le> linalg_norm v"
  by (cases v) simp

lemma linalg_norm_eq_0: "linalg_norm v = 0 \<longleftrightarrow> v = (0, 0, 0)"
proof (cases v)
  case (fields a b c)
  have "a * a + b * b + c * c = 0 \<longleftrightarrow> a = 0 \<and> b = 0 \<and> c = 0"
    using sum_squares_eq_zero_iff [of a b] sum_squares_eq_zero_iff [of "sqrt (a * a + b * b)" c]
    by (smt (verit) mult_eq_0_iff zero_le_square)
  then show ?thesis by (simp add: fields)
qed

lemma linalg_norm_square: "linalg_norm v * linalg_norm v = dot v v"
proof (cases v)
  case (fields a b c)
  have "0 \<le> a * a + b * b + c * c" by (simp add: add_nonneg_nonneg)
  then show ?thesis by (simp add: fields)
qed

lemma dot_vdiv: "dot (vdiv u r) (vdiv v s) = dot u v / (r * s)"
  by (cases u; cases v) (simp add: add_divide_distrib)

lemma cross_vdiv: "cross (vdiv u r) (vdiv v s) = vdiv (cross u v) (r * s)"
  by (cases u; cases v) (simp add: diff_divide_distrib)

lemma dot_vdiv_right: "dot u (vdiv v s) = dot u v / s"
  by (cases u; cases v) (simp add: add_divide_distrib)

lemma normalize_nonzero:
  assumes "v \<noteq> (0, 0, 0)"
  shows "normalize_vec v = Inr (vdiv v (linalg_norm v))" and "0 < linalg_norm v"
    and "linalg_norm (vdiv v (linalg_norm v)) = 1"
proof -
  have ne: "linalg_norm v \<noteq> 0" using assms by (simp add: linalg_norm_eq_0)
  then show pos: "0 < linalg_norm v" using linalg_norm_nonneg [of v] by simp
  show "normalize_vec v = Inr (vdiv v (linalg_norm v))" using ne by (simp add: normalize_vec_def)
  have "dot v v / (linalg_norm v * linalg_norm v) = 1"
    unfolding linalg_norm_square [symmetric] using ne by simp
  then have "dot (vdiv v (linalg_norm v)) (vdiv v (linalg_norm v)) = 1"
    by (simp only: dot_vdiv)
  then have "linalg_norm (vdiv v (linalg_norm v)) * linalg_norm (vdiv v (linalg_norm v)) = 1"
    by (simp add: linalg_norm_square)
  then show "linalg_norm (vdiv v (linalg_norm v)) = 1"
    using linalg_norm_nonneg [of "vdiv v (linalg_norm v)"]
    by (smt (verit) mult_cancel_right1 mult_le_cancel_right1 mult_less_cancel_right2 square_eq_1_iff)
qed

lemma normalize_unit: "linalg_norm v = 1 \<Longrightarrow> normalize_vec v = Inr v"
  by (cases v) (simp add: normalize_vec_def)

lemma cross_cross: "cross (cross u v) (cross v w) = vdiv v (1 / dot u (cross v w))"
  by (cases u; cases v; cases w) (simp add: algebra_simps)

lemma degrees_bounds: "0 \<le> degrees (arccos (max (- 1) (min 1 s)))"
  "degrees (arccos (max (- 1) (min 1 s))) \<le> 180"
proof -
  have b: "- 1 \<le> max (- 1) (min 1 s)" "max (- 1) (min 1 s) \<le> 1" by simp_all
  from arccos_bounded [OF b] have "0 \<le> arccos (max (- 1) (min 1 s))"
    "arccos (max (- 1) (min 1 s)) \<le> pi" by simp_all
  then show "0 \<le> degrees (arccos (max (- 1) (min 1 s)))"
    "degrees (arccos (max (- 1) (min 1 s))) \<le> 180"
    by (simp_all add: degrees_def pos_divide_le_eq)
qed

lemma cross_zero_right: "cross u (0, 0, 0) = (0, 0, 0)" "cross (0, 0, 0) u = (0, 0, 0)"
  by (cases u; simp)+

lemma dot_self_pos: "v \<noteq> (0, 0, 0) \<Longrightarrow> 0 < dot v v"
  using linalg_norm_square [of v] normalize_nonzero(2) [of v] by (metis mult_pos_pos)

lemma triple_sign:
  assumes c1: "cross DA AB \<noteq> (0, 0, 0)" and c2: "cross AB BI \<noteq> (0, 0, 0)"
  shows "0 < dot AB (cross (vdiv (cross DA AB) (linalg_norm (cross DA AB)))
                          (vdiv (cross AB BI) (linalg_norm (cross AB BI))))
         \<longleftrightarrow> 0 < dot DA (cross AB BI)"
proof -
  define t where "t = dot DA (cross AB BI)"
  define n where "n = linalg_norm (cross DA AB) * linalg_norm (cross AB BI)"
  define s where "s = dot AB AB"
  have n: "0 < n" unfolding n_def
    using normalize_nonzero(2) [OF c1] normalize_nonzero(2) [OF c2] by simp
  have "AB \<noteq> (0, 0, 0)" using c1 cross_zero_right(1) [of DA] by metis
  then have s: "0 < s" unfolding s_def by (rule dot_self_pos)
  have "dot AB (cross (vdiv (cross DA AB) (linalg_norm (cross DA AB)))
                          (vdiv (cross AB BI) (linalg_norm (cross AB BI))))
        = s * t / n"
    unfolding s_def t_def n_def by (simp add: cross_vdiv cross_cross dot_vdiv_right)
  also have "0 < s * t / n \<longleftrightarrow> 0 < t"
    using n s by (simp add: zero_less_divide_iff zero_less_mult_iff)
  finally show ?thesis unfolding t_def .
qed

text \<open>
  C8 (corrected). When the four labels are in the frame and neither of the two cross
  products of consecutive bond vectors, \<open>DA \<times> AB\<close> and \<open>AB \<times> BI\<close>, is the zero vector,
  \<open>dihedral_degrees\<close> returns a value in \<open>[0, 360)\<close>: with \<open>ang\<close> the angle between the
  two plane normals (in \<open>[0, 180]\<close>), it is 0 when \<open>ang\<close> is 0, \<open>ang\<close> when the triple
  product \<open>DA \<cdot> (AB \<times> BI)\<close> of the bond vectors is positive, and \<open>360 - ang\<close> otherwise.
\<close>

theorem dihedral_degrees_range:
  assumes "location xyz [index, bond_with, angle_with, dihedral_with] = Inr [vi, vb, va, vd]"
    and "cross (vsub va vd) (vsub vb va) \<noteq> (0, 0, 0)"
    and "cross (vsub vb va) (vsub vi vb) \<noteq> (0, 0, 0)"
  shows "\<exists>d ang. dihedral_degrees xyz index bond_with angle_with dihedral_with = Inr d \<and>
           give_angle (cross (vsub va vd) (vsub vb va)) (cross (vsub vb va) (vsub vi vb)) = Inr ang \<and>
           0 \<le> ang \<and> ang \<le> 180 \<and> 0 \<le> d \<and> d < 360 \<and>
           d = (if ang = 0 then 0
                else if 0 < dot (vsub va vd) (cross (vsub vb va) (vsub vi vb)) then ang
                else 360 - ang)"
proof -
  let ?DA = "vsub va vd" and ?AB = "vsub vb va" and ?BI = "vsub vi vb"
  let ?n1 = "vdiv (cross ?DA ?AB) (linalg_norm (cross ?DA ?AB))"
  let ?n2 = "vdiv (cross ?AB ?BI) (linalg_norm (cross ?AB ?BI))"
  let ?ang = "degrees (arccos (max (- 1) (min 1 (dot ?n1 ?n2))))"
  note N1 = normalize_nonzero [OF assms(2)] and N2 = normalize_nonzero [OF assms(3)]
  have u1: "normalize_vec ?n1 = Inr ?n1" and u2: "normalize_vec ?n2 = Inr ?n2"
    using N1(3) N2(3) by (simp_all add: normalize_unit)
  have ga_n: "give_angle ?n1 ?n2 = Inr ?ang" by (simp add: give_angle_def u1 u2)
  have ga_c: "give_angle (cross ?DA ?AB) (cross ?AB ?BI) = Inr ?ang"
    by (simp add: give_angle_def N1(1) N2(1))
  have b: "0 \<le> ?ang" "?ang \<le> 180" by (rule degrees_bounds)+
  let ?d = "if ?ang \<noteq> 0 then (if 0 < dot ?AB (cross ?n1 ?n2) then ?ang else 360 - ?ang) else ?ang"
  have run: "dihedral_degrees xyz index bond_with angle_with dihedral_with = Inr ?d"
    unfolding dihedral_degrees_def assms(1) by (simp add: Let_def N1(1) N2(1) ga_n)
  have sign: "0 < dot ?AB (cross ?n1 ?n2) \<longleftrightarrow> 0 < dot ?DA (cross ?AB ?BI)"
    by (rule triple_sign [OF assms(2,3)])
  have d_eq: "?d = (if ?ang = 0 then 0 else if 0 < dot ?DA (cross ?AB ?BI) then ?ang else 360 - ?ang)"
    unfolding sign by simp
  have range: "0 \<le> ?d" "?d < 360" using b by (auto split: if_splits)
  from run ga_c b range d_eq show ?thesis by blast
qed

lemma twisted_location:
  "location twisted_frame [0, 1, 2, 3] = Inr [(0, 1, 1), (0, 1, 0), (0, 0, 0), (1, 0, 0)]"
  by (simp add: location_def loc_rows_def loc_row_def row_location_def twisted_frame_def)

lemma twisted_dihedral: "dihedral_degrees twisted_frame 0 1 2 3 = Inr 270"
  unfolding dihedral_degrees_def twisted_location
  by (simp add: Let_def normalize_vec_def give_angle_def degrees_def)

theorem dihedral_degrees_range_witness:
  "location twisted_frame [0, 1, 2, 3] = Inr [(0, 1, 1), (0, 1, 0), (0, 0, 0), (1, 0, 0)] \<and>
   cross (vsub (0, 0, 0) (1, 0, 0)) (vsub (0, 1, 0) (0, 0, 0)) \<noteq> (0, 0, 0) \<and>
   cross (vsub (0, 1, 0) (0, 0, 0)) (vsub (0, 1, 1) (0, 1, 0)) \<noteq> (0, 0, 0) \<and>
   dihedral_degrees twisted_frame 0 1 2 3 = Inr 270 \<and>
   (\<exists>d ang. dihedral_degrees twisted_frame 0 1 2 3 = Inr d \<and>
      give_angle (cross (vsub (0, 0, 0) (1, 0, 0)) (vsub (0, 1, 0) (0, 0, 0)))
                 (cross (vsub (0, 1, 0) (0, 0, 0)) (vsub (0, 1, 1) (0, 1, 0))) = Inr ang \<and>
      0 \<le> ang \<and> ang \<le> 180 \<and> 0 \<le> d \<and> d < 360 \<and>
      d = (if ang = 0 then 0
           else if 0 < dot (vsub (0, 0, 0) (1, 0, 0)) (cross (vsub (0, 1, 0) (0, 0, 0)) (vsub (0, 1, 1) (0, 1, 0)))
                then ang else 360 - ang))"
proof -
  have c1: "cross (vsub (0, 0, 0) (1, 0, 0)) (vsub (0, 1, 0) (0, 0, 0)) \<noteq> (0, 0, 0)" by simp
  have c2: "cross (vsub (0, 1, 0) (0, 0, 0)) (vsub (0, 1, 1) (0, 1, 0)) \<noteq> (0, 0, 0)" by simp
  note T = dihedral_degrees_range [OF twisted_location c1 c2]
  show ?thesis by (intro conjI twisted_location c1 c2 twisted_dihedral T)
qed

theorem dihedral_degrees_counterexample:
  "distinct [0, 1, 2, 3 :: int] \<and> set [0, 1, 2, 3] \<subseteq> set (frame_index h4_frame) \<and>
   dihedral_degrees h4_frame 0 1 2 3 = Inl DegenerateGeometry"
  by (simp add: dihedral_degrees_def location_def loc_rows_def loc_row_def row_location_def
      h4_frame_def normalize_vec_def Let_def frame_index_def)

section \<open>Properties of \<^verbatim>\<open>pick\<close>\<close>

text \<open>
  C10. On a non-empty set \<open>pick\<close> has an outcome, every outcome is a returned element
  that is a member of the set, and the set after the call is the set before it.
\<close>

theorem pick_member_and_frame:
  assumes "s \<noteq> {}"
  shows "(\<exists>x s'. pick s (Inr x, s')) \<and>
         (\<forall>r s'. pick s (r, s') \<longrightarrow> (\<exists>x. r = Inr x \<and> x \<in> s) \<and> s' = s)"
proof
  from assms obtain x where "x \<in> s" by blast
  then have "set_pop s (Inr x, s - {x})" by (rule pop_elem)
  then have "pick s (Inr x, insert x (s - {x}))" by (rule pick_return)
  then show "\<exists>x s'. pick s (Inr x, s')" by blast
next
  have "(\<exists>x. r = Inr x \<and> x \<in> s) \<and> s' = s" if "pick s (r, s')" for r s'
    using that
  proof (cases rule: pick.cases)
    case (pick_raise e)
    then have "s = {}" by (auto elim: set_pop.cases)
    with assms show ?thesis by simp
  next
    case (pick_return x t)
    then have "x \<in> s \<and> t = s - {x}" by (auto elim: set_pop.cases)
    with pick_return show ?thesis by auto
  qed
  then show "\<forall>r s'. pick s (r, s') \<longrightarrow> (\<exists>x. r = Inr x \<and> x \<in> s) \<and> s' = s"
    by blast
qed

theorem pick_member_and_frame_witness:
  "{1, 2 :: int} \<noteq> {} \<and> pick {1, 2 :: int} (Inr 1, insert 1 ({1, 2} - {1})) \<and>
   (1 :: int) \<in> {1, 2} \<and> insert 1 ({1, 2} - {1}) = {1, 2 :: int}"
proof -
  have ne: "{1, 2 :: int} \<noteq> {}" by simp
  have "set_pop {1, 2 :: int} (Inr 1, {1, 2} - {1})" by (rule pop_elem) simp
  then have run: "pick {1, 2 :: int} (Inr 1, insert 1 ({1, 2} - {1}))" by (rule pick_return)
  from pick_member_and_frame [OF ne] run
  have "(\<exists>x. (Inr 1 :: py_error + int) = Inr x \<and> x \<in> {1, 2}) \<and> insert 1 ({1, 2} - {1}) = {1, 2 :: int}"
    by blast
  with ne run show ?thesis by simp
qed

end
